theory Spec2Isabelle
  imports Main
begin

section \<open>Values shared by all handlers\<close>

text \<open>
  The exceptions a handler can end with. \<open>ApiTelegramException\<close> is the class the
  source names in its \<open>except\<close> clauses; \<open>RequestException\<close> stands for any other
  exception a remote call raises (the ones only \<open>except Exception\<close> catches).
  The remaining ones are Python's own.
\<close>

datatype exn =
    ApiTelegramException
  | RequestException
  | TypeError
  | KeyError
  | ValueError
  | IndexError
  | AttributeError
  | InterfaceError
  | OverflowError

datatype outcome = Returned | Raised exn

text \<open>
  What the source passes as \<open>message_thread_id\<close>: nothing, an integer, or (main.py:206)
  the row \<open>(thread_id,)\<close> that \<open>fetchone()\<close> returned, still wrapped.
\<close>

datatype thread_arg = NoThread | ThreadId int | ThreadRow int

fun thread_of :: "thread_arg \<Rightarrow> int option" where
  "thread_of NoThread = None"
| "thread_of (ThreadId t) = Some t"
| "thread_of (ThreadRow t) = Some t"

definition opt_thread :: "int option \<Rightarrow> thread_arg" where
  "opt_thread t = (case t of None \<Rightarrow> NoThread | Some n \<Rightarrow> ThreadId n)"

subsection \<open>str() of an integer\<close>

definition digit_chars :: string where
  "digit_chars = ''0123456789''"

fun str_nat :: "nat \<Rightarrow> string" where
  "str_nat n = (if n < 10 then [digit_chars ! n]
                else str_nat (n div 10) @ [digit_chars ! (n mod 10)])"

declare str_nat.simps [simp del]

definition str_int :: "int \<Rightarrow> string" where
  "str_int i = (if i < 0 then CHR ''-'' # str_nat (nat (- i)) else str_nat (nat i))"

definition str_opt :: "string option \<Rightarrow> string" where
  "str_opt s = (case s of None \<Rightarrow> ''None'' | Some t \<Rightarrow> t)"

definition str_int_opt :: "int option \<Rightarrow> string" where
  "str_int_opt i = (case i of None \<Rightarrow> ''None'' | Some n \<Rightarrow> str_int n)"

text \<open>\<open>s.split(" ")\<close>: the pieces between single spaces, empty pieces kept.\<close>

fun split_space :: "string \<Rightarrow> string list" where
  "split_space [] = [[]]"
| "split_space (c # cs) =
     (if c = CHR '' '' then [] # split_space cs
      else (case split_space cs of [] \<Rightarrow> [[c]] | w # ws \<Rightarrow> (c # w) # ws))"

text \<open>
  \<open>int(s)\<close>: surrounding whitespace is stripped, then an optional sign and decimal
  digits, where single underscores may stand between digits. Anything else is a
  \<open>ValueError\<close>. The model covers the ASCII digits and the ASCII whitespace; Python
  also accepts the other Unicode decimal digits and whitespace.
\<close>

definition digit_val :: "char \<Rightarrow> nat option" where
  "digit_val ch = (if ch \<in> set digit_chars then Some (of_char ch - 48) else None)"

definition is_space :: "char \<Rightarrow> bool" where
  "is_space ch \<longleftrightarrow>
     ch \<in> set [CHR '' '', CHR 0x09, CHR 0x0A, CHR 0x0B, CHR 0x0C, CHR 0x0D,
                CHR 0x1C, CHR 0x1D, CHR 0x1E, CHR 0x1F]"

definition strip :: "string \<Rightarrow> string" where
  "strip s = rev (dropWhile is_space (rev (dropWhile is_space s)))"

text \<open>The digits after the first one: an underscore must be followed by a digit.\<close>

fun nat_of_digits :: "nat \<Rightarrow> string \<Rightarrow> nat option" where
  "nat_of_digits acc [] = Some acc"
| "nat_of_digits acc (ch # cs) =
     (if ch = CHR ''_'' then
        (case cs of
           [] \<Rightarrow> None
         | d # ds \<Rightarrow> if d = CHR ''_'' then None else nat_of_digits acc cs)
      else (case digit_val ch of None \<Rightarrow> None | Some d \<Rightarrow> nat_of_digits (10 * acc + d) cs))"

definition unsigned :: "string \<Rightarrow> nat option" where
  "unsigned s =
     (case s of
        [] \<Rightarrow> None
      | ch # cs \<Rightarrow> (case digit_val ch of None \<Rightarrow> None | Some d \<Rightarrow> nat_of_digits d cs))"

definition py_int :: "string \<Rightarrow> int option" where
  "py_int s =
     (case strip s of
        [] \<Rightarrow> None
      | ch # cs \<Rightarrow>
          if ch = CHR ''-'' then map_option (\<lambda>n. - int n) (unsigned cs)
          else if ch = CHR ''+'' then map_option int (unsigned cs)
          else map_option int (unsigned (ch # cs)))"

text \<open>
  An integer bound to a query must fit SQLite's 64-bit INTEGER; the binding of a larger
  one raises \<open>OverflowError\<close>.
\<close>

definition sqlite_int :: "int \<Rightarrow> bool" where
  "sqlite_int i \<longleftrightarrow> - (2 ^ 63) \<le> i \<and> i < 2 ^ 63"

definition nl :: string where
  "nl = [CHR 0x0A]"

subsection \<open>JSON values (callback payloads)\<close>

datatype json =
    JNull
  | JBool bool
  | JInt int
  | JStr string
  | JList "json list"
  | JObj "(string \<times> json) list"

section \<open>Telegram objects\<close>

record tg_user =
  u_id :: int
  first_name :: string
  last_name :: "string option"
  username :: "string option"

text \<open>
  A \<open>telebot.types.Message\<close>, with the attributes the handlers read. Media attributes
  hold the \<open>file_id\<close>; \<open>photo\<close> is the list of sizes.
\<close>

record message =
  msg_id :: int
  chat_id :: int
  message_thread_id :: "int option"
  from_user :: tg_user
  msg_text :: "string option"
  content_type :: string
  caption :: "string option"
  photo :: "string list option"
  sticker :: "string option"
  video :: "string option"
  document :: "string option"

section \<open>The store\<close>

text \<open>
  The tables of \<open>storage.db\<close> as lists of rows in insertion order, so that
  \<open>SELECT ... LIMIT 1\<close> is \<open>find\<close>. The only INSERT into \<open>topics\<close> in the sources
  (main.py:216) writes two integers, so rows hold integers and the tests
  \<open>user_id[0] is None\<close> of the source never succeed. \<open>ban\<close> is not written by that
  INSERT and takes the column's default, 0.
  Likewise \<open>auto_response\<close> rows are written by \<open>/auto_response set\<close> only
  (main.py:93-103), with a string value and an integer \<open>topic_action\<close>. The columns of
  \<open>messages\<close> are the spec's: the INSERT is not part of the sources.
  The lookup cache (an object handed to \<open>CommandHandler\<close>) is a key/value table.
\<close>

record topic =
  t_user_id :: int
  t_thread_id :: int
  ban :: int

record pair =
  received_id :: int
  forwarded_id :: int
  topic_id :: int
  in_group :: bool

record auto_rule =
  rule_key :: string
  rule_value :: string
  topic_action :: int

record store =
  topics :: "topic list"
  messages :: "pair list"
  auto_response :: "auto_rule list"
  cache :: "(string \<times> int) list"

definition cache_delete :: "string \<Rightarrow> store \<Rightarrow> store" where
  "cache_delete k st = st\<lparr>cache := filter (\<lambda>kv. fst kv \<noteq> k) (cache st)\<rparr>"

section \<open>Remote calls, logging and the environment\<close>

text \<open>
  Every call on the bot object or on \<open>telebot.apihelper\<close>, and every log line, is an
  effect; a handler's trace is the list of effects it issued, in order. Rendering
  options (\<open>parse_mode\<close>, \<open>disable_web_page_preview\<close>) are not recorded. A keyboard is
  the list of its buttons, each a label and the JSON value dumped into \<open>callback_data\<close>.
  Log lines keep the (translated) template and the formatted arguments apart.
\<close>

type_synonym button = "string \<times> json"

datatype effect =
    LogInfo string "string list"
  | LogError string "string list"
  | LogException exn
  | LogErrorExn string exn
  | CreateForumTopic int string
  | CloseForumTopic int "int option"
  | ReopenForumTopic int "int option"
  | DeleteForumTopic int "int option"
  | SendMessage int string thread_arg "button list"
  | ReplyTo int int string "button list"
  | PinChatMessage int int
  | ForwardMessage int int thread_arg int
  | SendPhoto int string "string option"
  | SendSticker int string
  | SendVideo int string "string option"
  | SendDocument int string "string option"
  | EditMessageText int int string "button list"
  | DeleteMessage int int
  | SetMessageReaction int int "string list"
  | GetChatMember int int
  | GetMe
  | AnswerCallbackQuery string
  | SendMessageTo json string
  | AdminHandler string message "json list"
  | SetUserVerified json

fun is_log :: "effect \<Rightarrow> bool" where
  "is_log (LogInfo _ _) = True"
| "is_log (LogError _ _) = True"
| "is_log (LogException _) = True"
| "is_log (LogErrorExn _ _) = True"
| "is_log _ = False"

text \<open>
  The environment answers the remote calls: whether a call raises, and what the calls
  whose result the handlers use return (the id of a created forum topic, the id of a
  sent message, a member's status, the bot's own id). It also holds the clock reading
  of \<open>datetime.now()\<close>, already formatted.
\<close>

record env =
  fails :: "effect \<Rightarrow> exn option"
  new_thread_id :: "int \<Rightarrow> string \<Rightarrow> int"
  sent_message_id :: "effect \<Rightarrow> int"
  member_status :: "int \<Rightarrow> int \<Rightarrow> string"
  me_id :: int
  now_text :: string

definition raises :: "env \<Rightarrow> effect \<Rightarrow> exn option" where
  "raises tg c = (if is_log c then None else fails tg c)"

text \<open>Straight-line code: issue the effects in order, stop at the first that raises.\<close>

fun run_calls :: "env \<Rightarrow> effect list \<Rightarrow> effect list \<times> outcome" where
  "run_calls tg [] = ([], Returned)"
| "run_calls tg (c # cs) =
     (case raises tg c of
        Some e \<Rightarrow> ([c], Raised e)
      | None \<Rightarrow> (case run_calls tg cs of (es, out) \<Rightarrow> (c # es, out)))"

text \<open>
  The configuration of a handler object: the group's chat id, the translation
  function \<open>_\<close> (gettext, set up in a module that is not part of the sources) and
  the decoder \<open>json.loads\<close> of the standard library, \<open>None\<close> where it raises
  \<open>JSONDecodeError\<close>.
\<close>

record ctx =
  group_id :: int
  gettext :: "string \<Rightarrow> string"
  json_loads :: "string \<Rightarrow> json option"

type_synonym result = "store \<times> effect list \<times> outcome"

definition prepend :: "effect list \<Rightarrow> result \<Rightarrow> result" where
  "prepend pre r = (case r of (st, es, out) \<Rightarrow> (st, pre @ es, out))"

definition finish :: "store \<Rightarrow> effect list \<times> outcome \<Rightarrow> result" where
  "finish st r = (case r of (es, out) \<Rightarrow> (st, es, out))"

section \<open>main.py: class TGBot\<close>

subsection \<open>handle_messages\<close>

text \<open>main.py:193-198, the auto-response lookup by the exact message text.\<close>

definition auto_response_lookup :: "store \<Rightarrow> string option \<Rightarrow> auto_rule option" where
  "auto_response_lookup st k =
     (case k of None \<Rightarrow> None | Some s \<Rightarrow> find (\<lambda>r. rule_key r = s) (auto_response st))"

text \<open>main.py:220-225, the text of the identity card.\<close>

definition identity_card :: "ctx \<Rightarrow> tg_user \<Rightarrow> string" where
  "identity_card c u =
     ''User ID: '' @ str_int (u_id u) @ nl @
     ''Full Name: '' @ first_name u @ (case last_name u of None \<Rightarrow> [] | Some l \<Rightarrow> '' '' @ l) @ nl @
     ''Username: '' @ (case username u of None \<Rightarrow> gettext c ''Not set'' | Some n \<Rightarrow> ''@'' @ n) @ nl"

text \<open>
  main.py:204-227, the thread lookup and creation step. \<open>Inr\<close> carries the value of the
  variable \<open>thread_id\<close> with which the handler goes on; \<open>Inl\<close> ends the handler (the
  \<open>return\<close> after a failed creation, or an exception of the card or the pin).
\<close>

definition resolve_or_create_thread ::
  "ctx \<Rightarrow> env \<Rightarrow> store \<Rightarrow> message \<Rightarrow> store \<times> effect list \<times> (outcome + thread_arg)" where
  "resolve_or_create_thread c tg st m =
     (let userid = u_id (from_user m) in
      case find (\<lambda>r. t_user_id r = userid) (topics st) of
        Some r \<Rightarrow> (st, [], Inr (ThreadRow (t_thread_id r)))
      | None \<Rightarrow>
          (let creating = LogInfo (gettext c ''Creating a new thread for user {}'') [str_int userid];
               create = CreateForumTopic (group_id c) (first_name (from_user m))
           in case raises tg create of
                Some e \<Rightarrow> (st, [creating, create, LogException e], Inl Returned)
              | None \<Rightarrow>
                  (let tid = new_thread_id tg (group_id c) (first_name (from_user m));
                       st' = st\<lparr>topics := topics st @ [\<lparr>t_user_id = userid, t_thread_id = tid, ban = 0\<rparr>]\<rparr>;
                       card = SendMessage (group_id c) (identity_card c (from_user m)) (ThreadId tid) []
                   in case raises tg card of
                        Some e \<Rightarrow> (st', [creating, create, card], Inl (Raised e))
                      | None \<Rightarrow>
                          (let pin = PinChatMessage (group_id c) (sent_message_id tg card)
                           in case raises tg pin of
                                Some e \<Rightarrow> (st', [creating, create, card, pin], Inl (Raised e))
                              | None \<Rightarrow> (st', [creating, create, card, pin], Inr (ThreadId tid))))))"

text \<open>main.py:228-239, the forward into the thread and the echo of the auto-response.\<close>

definition auto_response_echo :: "ctx \<Rightarrow> thread_arg \<Rightarrow> auto_rule option \<Rightarrow> effect list" where
  "auto_response_echo c thread_id rule =
     (case rule of
        None \<Rightarrow> []
      | Some r \<Rightarrow>
          if topic_action r \<noteq> 0
          then [SendMessage (group_id c) (gettext c ''[Auto Response]'' @ rule_value r) thread_id []]
          else [])"

definition forward_to_group ::
  "ctx \<Rightarrow> env \<Rightarrow> message \<Rightarrow> thread_arg \<Rightarrow> auto_rule option \<Rightarrow> effect list \<times> outcome" where
  "forward_to_group c tg m thread_id rule =
     (let fwd = ForwardMessage (group_id c) (chat_id m) thread_id (msg_id m);
          failed = gettext c (''Failed to forward message from user '' @ str_int (u_id (from_user m)))
      in case raises tg fwd of
           None \<Rightarrow> (case run_calls tg (auto_response_echo c thread_id rule) of (es, out) \<Rightarrow> (fwd # es, out))
         | Some e \<Rightarrow>
             if e = ApiTelegramException
             then (case run_calls tg
                          ([LogErrorExn failed e,
                            SendMessage (group_id c) failed NoThread [],
                            ForwardMessage (group_id c) (chat_id m) NoThread (msg_id m)]
                           @ auto_response_echo c thread_id rule)
                   of (es, out) \<Rightarrow> (fwd # es, out))
             else ([fwd], Raised e))"

definition relay_to_group :: "ctx \<Rightarrow> env \<Rightarrow> store \<Rightarrow> message \<Rightarrow> auto_rule option \<Rightarrow> result" where
  "relay_to_group c tg st m rule =
     (case resolve_or_create_thread c tg st m of
        (st', es, Inl out) \<Rightarrow> (st', es, out)
      | (st', es, Inr thread_id) \<Rightarrow> prepend es (finish st' (forward_to_group c tg m thread_id rule)))"

text \<open>
  main.py:241-266, a message of the group relayed to the user of its thread. A text
  message always has a text; the model lets the send fail where it has none.
\<close>

definition forward_to_user :: "ctx \<Rightarrow> env \<Rightarrow> store \<Rightarrow> message \<Rightarrow> result" where
  "forward_to_user c tg st m =
     (case find (\<lambda>r. Some (t_thread_id r) = message_thread_id m) (topics st) of
        Some r \<Rightarrow>
          (let uid = t_user_id r in
           if content_type m = ''photo'' then
             (case photo m of
                None \<Rightarrow> (st, [], Raised TypeError)
              | Some ps \<Rightarrow>
                  if ps = [] then (st, [], Raised IndexError)
                  else finish st (run_calls tg [SendPhoto uid (last ps) (caption m)]))
           else if content_type m = ''text'' then
             (case msg_text m of
                None \<Rightarrow> (st, [], Raised ApiTelegramException)
              | Some t \<Rightarrow> finish st (run_calls tg [SendMessage uid t NoThread []]))
           else if content_type m = ''sticker'' then
             (case sticker m of
                None \<Rightarrow> (st, [], Raised AttributeError)
              | Some f \<Rightarrow> finish st (run_calls tg [SendSticker uid f]))
           else if content_type m = ''video'' then
             (case video m of
                None \<Rightarrow> (st, [], Raised AttributeError)
              | Some f \<Rightarrow> finish st (run_calls tg [SendVideo uid f (caption m)]))
           else if content_type m = ''document'' then
             (case document m of
                None \<Rightarrow> (st, [], Raised AttributeError)
              | Some f \<Rightarrow> finish st (run_calls tg [SendDocument uid f (caption m)]))
           else (st, [LogError (gettext c ''Unsupported message type'' @ content_type m) []], Returned))
      | None \<Rightarrow>
          finish st (run_calls tg
            [SendMessage (group_id c) (gettext c ''Chat not found, please remove this topic manually'')
               (opt_thread (message_thread_id m)) [],
             CloseForumTopic (group_id c) (message_thread_id m)]))"

definition handle_messages :: "ctx \<Rightarrow> env \<Rightarrow> store \<Rightarrow> message \<Rightarrow> result" where
  "handle_messages c tg st m =
     (if message_thread_id m = None \<and> chat_id m = group_id c then (st, [], Returned)
      else if chat_id m \<noteq> group_id c then
        (let received = LogInfo (gettext c ''Received message from {}, content: {}, type: {}'')
                          [str_int (u_id (from_user m)), str_opt (msg_text m), content_type m]
         in case auto_response_lookup st (msg_text m) of
              None \<Rightarrow> prepend [received] (relay_to_group c tg st m None)
            | Some r \<Rightarrow>
                (let reply = SendMessage (chat_id m) (rule_value r) NoThread []
                 in case raises tg reply of
                      Some e \<Rightarrow> (st, [received, reply], Raised e)
                    | None \<Rightarrow>
                        if topic_action r = 0 then (st, [received, reply], Returned)
                        else prepend [received, reply] (relay_to_group c tg st m (Some r))))
      else forward_to_user c tg st m)"

subsection \<open>terminate_thread and handle_terminate of TGBot\<close>

text \<open>A remote call inside \<open>try ... except ApiTelegramException: pass\<close>.\<close>

definition quietly :: "env \<Rightarrow> effect \<Rightarrow> effect list \<times> outcome" where
  "quietly tg call =
     (case raises tg call of
        None \<Rightarrow> ([call], Returned)
      | Some e \<Rightarrow> if e = ApiTelegramException then ([call], Returned) else ([call], Raised e))"

definition terminating_log :: "ctx \<Rightarrow> int option \<Rightarrow> effect" where
  "terminating_log c thread_id = LogInfo (gettext c ''Terminating thread'' @ str_int_opt thread_id) []"

text \<open>main.py:150-154, after the topics table was updated.\<close>

definition tgbot_delete_and_log :: "ctx \<Rightarrow> env \<Rightarrow> store \<Rightarrow> int option \<Rightarrow> result" where
  "tgbot_delete_and_log c tg st thread_id =
     (case quietly tg (DeleteForumTopic (group_id c) thread_id) of
        (es, Returned) \<Rightarrow> (st, es @ [terminating_log c thread_id], Returned)
      | (es, Raised e) \<Rightarrow> (st, es, Raised e))"

text \<open>
  main.py:139-154. \<open>fetchone()[0]\<close> on no row is a \<open>TypeError\<close>. The user id was
  typed by the admin and may be too large to bind; the thread id is Telegram's.
\<close>

definition tgbot_terminate_thread :: "ctx \<Rightarrow> env \<Rightarrow> store \<Rightarrow> int option \<Rightarrow> int option \<Rightarrow> result" where
  "tgbot_terminate_thread c tg st thread_id user_id =
     (case thread_id of
        Some t \<Rightarrow>
          tgbot_delete_and_log c tg (st\<lparr>topics := filter (\<lambda>r. t_thread_id r \<noteq> t) (topics st)\<rparr>) (Some t)
      | None \<Rightarrow>
          (case user_id of
             Some u \<Rightarrow>
               if \<not> sqlite_int u then (st, [], Raised OverflowError)
               else
                 (case find (\<lambda>r. t_user_id r = u) (topics st) of
                    None \<Rightarrow> (st, [], Raised TypeError)
                  | Some r \<Rightarrow>
                      tgbot_delete_and_log c tg
                        (st\<lparr>topics := filter (\<lambda>r. t_user_id r \<noteq> u) (topics st)\<rparr>) (Some (t_thread_id r)))
           | None \<Rightarrow> tgbot_delete_and_log c tg st None))"

definition terminate_usage :: string where
  "terminate_usage = ''Invalid command'' @ nl @ ''Correct usage:```'' @ nl @ ''/terminate <user ID>```''"

text \<open>
  main.py:173-179, the call of \<open>terminate_thread\<close> under \<open>except Exception\<close>.
\<close>

definition tgbot_try_terminate ::
  "ctx \<Rightarrow> env \<Rightarrow> store \<Rightarrow> message \<Rightarrow> int option \<Rightarrow> int option \<Rightarrow> result" where
  "tgbot_try_terminate c tg st m thread_id user_id =
     (case tgbot_terminate_thread c tg st thread_id user_id of
        (st', es, Returned) \<Rightarrow>
          if message_thread_id m = None then
            (let done = ReplyTo (chat_id m) (msg_id m) (gettext c ''Thread terminated'') []
             in case raises tg done of
                  None \<Rightarrow> (st', es @ [done], Returned)
                | Some e \<Rightarrow>
                    prepend (es @ [done])
                      (finish st' (run_calls tg
                         [LogError (gettext c ''Failed to terminate the thread'' @ str_int_opt thread_id) [],
                          ReplyTo (chat_id m) (msg_id m) (gettext c ''Failed to terminate the thread'') []])))
          else (st', es, Returned)
      | (st', es, Raised e) \<Rightarrow>
          prepend es
            (finish st' (run_calls tg
               [LogError (gettext c ''Failed to terminate the thread'' @ str_int_opt thread_id) [],
                ReplyTo (chat_id m) (msg_id m) (gettext c ''Failed to terminate the thread'') []])))"

text \<open>main.py:157-179. A command message has a text; without one \<open>split\<close> fails.\<close>

definition tgbot_handle_terminate :: "ctx \<Rightarrow> env \<Rightarrow> store \<Rightarrow> message \<Rightarrow> result" where
  "tgbot_handle_terminate c tg st m =
     (if chat_id m = group_id c then
        (case message_thread_id m of
           None \<Rightarrow>
             (case msg_text m of
                None \<Rightarrow> (st, [], Raised AttributeError)
              | Some t \<Rightarrow>
                  (let msg_split = split_space t in
                   if length msg_split \<noteq> 2
                   then finish st (run_calls tg [ReplyTo (chat_id m) (msg_id m) terminate_usage []])
                   else (case py_int (msg_split ! 1) of
                           None \<Rightarrow> (st, [], Raised ValueError)
                         | Some u \<Rightarrow> tgbot_try_terminate c tg st m None (Some u))))
         | Some t \<Rightarrow>
             if t = 1
             then finish st (run_calls tg
                    [ReplyTo (chat_id m) (msg_id m) (gettext c ''Cannot terminate main thread'') []])
             else tgbot_try_terminate c tg st m (Some t) None)
      else (st, [], Returned))"

section \<open>src/handlers/command_handler.py: class CommandHandler\<close>

definition check_valid_chat :: "ctx \<Rightarrow> message \<Rightarrow> bool" where
  "check_valid_chat c m \<longleftrightarrow> chat_id m = group_id c \<and> message_thread_id m = None"

definition admin_only :: "ctx \<Rightarrow> env \<Rightarrow> store \<Rightarrow> message \<Rightarrow> result" where
  "admin_only c tg st m =
     finish st (run_calls tg
       [SendMessage (chat_id m) (gettext c ''This command is only available to admin users.'') NoThread []])"

subsection \<open>terminate_thread\<close>

text \<open>
  command_handler.py:123-136: the topic lookup and the deletion of the topic row. The
  result is the store and the values of \<open>thread_id\<close> and \<open>user_id\<close> afterwards (the
  walrus assignments overwrite them, with \<open>None\<close> on a miss).
\<close>

definition terminate_lookup ::
  "store \<Rightarrow> int option \<Rightarrow> int option \<Rightarrow> store \<times> int option \<times> int option" where
  "terminate_lookup st thread_id user_id =
     (case thread_id of
        Some t \<Rightarrow>
          (case find (\<lambda>r. t_thread_id r = t) (topics st) of
             Some r \<Rightarrow> (st\<lparr>topics := filter (\<lambda>r. t_thread_id r \<noteq> t) (topics st)\<rparr>, Some t, Some (t_user_id r))
           | None \<Rightarrow> (st, Some t, None))
      | None \<Rightarrow>
          (case user_id of
             Some u \<Rightarrow>
               (case find (\<lambda>r. t_user_id r = u) (topics st) of
                  Some r \<Rightarrow> (st\<lparr>topics := filter (\<lambda>r. t_user_id r \<noteq> u) (topics st)\<rparr>, Some (t_thread_id r), Some u)
                | None \<Rightarrow> (st, None, Some u))
           | None \<Rightarrow> (st, None, None)))"

definition chat_key :: "int \<Rightarrow> string" where
  "chat_key user_id = ''chat_'' @ str_int user_id @ ''_threadid''"

definition thread_key :: "int \<Rightarrow> string" where
  "thread_key thread_id = ''threadid_'' @ str_int thread_id @ ''_userid''"

text \<open>
  command_handler.py:119-148. \<open>if user_id and thread_id\<close> is Python truth: both are
  present and neither is 0.
\<close>

definition terminate_thread :: "ctx \<Rightarrow> env \<Rightarrow> store \<Rightarrow> int option \<Rightarrow> int option \<Rightarrow> result" where
  "terminate_thread c tg st thread_id user_id =
     (case terminate_lookup st thread_id user_id of
        (st1, thread_id1, user_id1) \<Rightarrow>
          (case (user_id1, thread_id1) of
             (Some u, Some t) \<Rightarrow>
               if u \<noteq> 0 \<and> t \<noteq> 0 then
                 (let st2 = cache_delete (thread_key t) (cache_delete (chat_key u) st1)
                  in case quietly tg (DeleteForumTopic (group_id c) (Some t)) of
                       (es, Returned) \<Rightarrow>
                         (st2\<lparr>messages := filter (\<lambda>p. topic_id p \<noteq> t) (messages st2)\<rparr>,
                          es @ [terminating_log c thread_id1], Returned)
                     | (es, Raised e) \<Rightarrow> (st2, es, Raised e))
               else (st1, [terminating_log c thread_id1], Returned)
           | _ \<Rightarrow> (st1, [terminating_log c thread_id1], Returned)))"

subsection \<open>handle_terminate\<close>

text \<open>
  The emoji in front of the button labels, as their UTF-8 bytes: U+2705, U+274C, and
  U+2B05 followed by U+FE0F.
\<close>

definition check_mark :: string where
  "check_mark = [CHR 0xE2, CHR 0x9C, CHR 0x85]"

definition cross_mark :: string where
  "cross_mark = [CHR 0xE2, CHR 0x9D, CHR 0x8C]"

definition left_arrow :: string where
  "left_arrow = [CHR 0xE2, CHR 0xAC, CHR 0x85, CHR 0xEF, CHR 0xB8, CHR 0x8F]"

text \<open>The confirmation keyboard (command_handler.py:168-180).\<close>

definition confirm_markup :: "ctx \<Rightarrow> int option \<Rightarrow> int option \<Rightarrow> button list" where
  "confirm_markup c thread_id user_id =
     [(check_mark @ gettext c ''Confirm'',
       (case thread_id of
          Some t \<Rightarrow> JObj [(''action'', JStr ''confirm_terminate''), (''thread_id'', JInt t)]
        | None \<Rightarrow> JObj [(''action'', JStr ''confirm_terminate''),
                         (''user_id'', (case user_id of None \<Rightarrow> JNull | Some u \<Rightarrow> JInt u))])),
      (cross_mark @ gettext c ''Cancel'', JObj [(''action'', JStr ''cancel_terminate'')])]"

text \<open>command_handler.py:165-182, once \<open>thread_id\<close> and \<open>user_id\<close> are known.\<close>

definition ask_terminate :: "ctx \<Rightarrow> env \<Rightarrow> store \<Rightarrow> message \<Rightarrow> int option \<Rightarrow> int option \<Rightarrow> result" where
  "ask_terminate c tg st m thread_id user_id =
     (if thread_id = Some 1
      then finish st (run_calls tg
             [ReplyTo (chat_id m) (msg_id m) (gettext c ''Cannot terminate main thread'') []])
      else finish st (run_calls tg
             [ReplyTo (chat_id m) (msg_id m) (gettext c ''Are you sure you want to terminate this thread?'')
                (confirm_markup c thread_id user_id)]))"

definition handle_terminate :: "ctx \<Rightarrow> env \<Rightarrow> store \<Rightarrow> message \<Rightarrow> result" where
  "handle_terminate c tg st m =
     (if chat_id m = group_id c then
        (let member = GetChatMember (chat_id m) (u_id (from_user m))
         in case raises tg member of
              Some e \<Rightarrow> (st, [member], Raised e)
            | None \<Rightarrow>
                if member_status tg (chat_id m) (u_id (from_user m)) = ''administrator''
                   \<or> member_status tg (chat_id m) (u_id (from_user m)) = ''creator''
                then prepend [member]
                  (case message_thread_id m of
                     None \<Rightarrow>
                       (case msg_text m of
                          None \<Rightarrow> (st, [], Raised AttributeError)
                        | Some t \<Rightarrow>
                            (let msg_split = split_space t in
                             if length msg_split \<noteq> 2
                             then finish st (run_calls tg [ReplyTo (chat_id m) (msg_id m) terminate_usage []])
                             else (case py_int (msg_split ! 1) of
                                     None \<Rightarrow> (st, [], Raised ValueError)
                                   | Some u \<Rightarrow> ask_terminate c tg st m None (Some u))))
                   | Some t \<Rightarrow> ask_terminate c tg st m (Some t) None)
                else prepend [member] (admin_only c tg st m))
      else admin_only c tg st m)"

subsection \<open>handle_edit\<close>

text \<open>
  command_handler.py:253-279. The new text is built (line 267) before the content type
  is looked at: \<open>message.text + ...\<close> on a message without text is a \<open>TypeError\<close>.
\<close>

definition edited_suffix :: "ctx \<Rightarrow> env \<Rightarrow> string" where
  "edited_suffix c tg = nl @ nl @ ''('' @ gettext c ''Edited at'' @ '' '' @ now_text tg @ '')''"

definition handle_edit :: "ctx \<Rightarrow> env \<Rightarrow> store \<Rightarrow> message \<Rightarrow> result" where
  "handle_edit c tg st m =
     (if check_valid_chat c m then (st, [], Returned)
      else
        (case find (\<lambda>p. received_id p = msg_id m \<and> in_group p = (chat_id m = group_id c)) (messages st) of
           None \<Rightarrow> (st, [], Returned)
         | Some p \<Rightarrow>
             (case msg_text m of
                None \<Rightarrow> (st, [], Raised TypeError)
              | Some t \<Rightarrow>
                  (let edited_text = t @ edited_suffix c tg in
                   if chat_id m = group_id c then
                     (case find (\<lambda>r. t_thread_id r = topic_id p) (topics st) of
                        None \<Rightarrow> (st, [], Returned)
                      | Some r \<Rightarrow>
                          if content_type m = ''text''
                          then finish st (run_calls tg
                                 [EditMessageText (t_user_id r) (forwarded_id p) edited_text []])
                          else (st, [], Returned))
                   else
                     if content_type m = ''text''
                     then finish st (run_calls tg
                            [EditMessageText (group_id c) (forwarded_id p) edited_text []])
                     else (st, [], Returned)))))"

subsection \<open>handle_reaction\<close>

text \<open>A \<open>MessageReactionUpdated\<close>; a reaction is its emoji.\<close>

record reaction_update =
  ru_chat_id :: int
  ru_message_id :: int
  new_reaction :: "string list"

text \<open>
  command_handler.py:285-294: the pair lookup, by \<open>forwarded_id\<close> first and by
  \<open>received_id\<close> on a miss. The result is \<open>topic_id\<close> and the other id of the pair.
\<close>

definition reaction_lookup :: "store \<Rightarrow> int \<Rightarrow> (int \<times> int) option" where
  "reaction_lookup st mid =
     (case find (\<lambda>p. forwarded_id p = mid) (messages st) of
        Some p \<Rightarrow> Some (topic_id p, received_id p)
      | None \<Rightarrow>
          (case find (\<lambda>p. received_id p = mid) (messages st) of
             Some p \<Rightarrow> Some (topic_id p, forwarded_id p)
           | None \<Rightarrow> None))"

definition reaction_arg :: "reaction_update \<Rightarrow> string list" where
  "reaction_arg ev = (if new_reaction ev = [] then [] else [last (new_reaction ev)])"

definition handle_reaction :: "ctx \<Rightarrow> env \<Rightarrow> store \<Rightarrow> reaction_update \<Rightarrow> result" where
  "handle_reaction c tg st ev =
     (case reaction_lookup st (ru_message_id ev) of
        None \<Rightarrow> (st, [], Returned)
      | Some (topic, counterpart) \<Rightarrow>
          if ru_chat_id ev = group_id c then
            (case find (\<lambda>r. t_thread_id r = topic) (topics st) of
               None \<Rightarrow> (st, [], Returned)
             | Some r \<Rightarrow>
                 finish st (run_calls tg [SetMessageReaction (t_user_id r) counterpart (reaction_arg ev)]))
          else finish st (run_calls tg [SetMessageReaction (group_id c) counterpart (reaction_arg ev)]))"

subsection \<open>unban_user\<close>

definition unban_usage :: string where
  "unban_usage = ''Invalid command'' @ nl @ ''Correct usage:```'' @ nl @ ''/unban <user ID>```''"

definition back_markup :: "ctx \<Rightarrow> button list" where
  "back_markup c = [(left_arrow @ gettext c ''Back'', JObj [(''action'', JStr ''menu'')])]"

text \<open>command_handler.py:83-94, the unban of the thread the command was sent in.\<close>

definition unban_by_thread :: "ctx \<Rightarrow> env \<Rightarrow> store \<Rightarrow> message \<Rightarrow> result" where
  "unban_by_thread c tg st m =
     (let st' = st\<lparr>topics := map (\<lambda>r. if Some (t_thread_id r) = message_thread_id m then r\<lparr>ban := 0\<rparr> else r)
                                 (topics st)\<rparr>;
          sent = SendMessage (group_id c) (gettext c ''User unbanned'') (opt_thread (message_thread_id m)) []
      in case raises tg sent of
           Some e \<Rightarrow> (st', [sent], Raised e)
         | None \<Rightarrow> prepend [sent] (finish st' (quietly tg (ReopenForumTopic (group_id c) (message_thread_id m)))))"

text \<open>command_handler.py:96-117, the unban by user id.\<close>

definition unban_by_user :: "ctx \<Rightarrow> env \<Rightarrow> store \<Rightarrow> message \<Rightarrow> int \<Rightarrow> result" where
  "unban_by_user c tg st m u =
     (if \<not> sqlite_int u then (st, [], Raised OverflowError)
      else case find (\<lambda>r. t_user_id r = u) (topics st) of
        None \<Rightarrow> finish st (run_calls tg [SendMessage (group_id c) (gettext c ''User not found'') NoThread []])
      | Some r \<Rightarrow>
          (let st' = st\<lparr>topics := map (\<lambda>r. if t_user_id r = u then r\<lparr>ban := 0\<rparr> else r) (topics st)\<rparr>
           in case quietly tg (ReopenForumTopic (group_id c) (Some (t_thread_id r))) of
                (es, Raised e) \<Rightarrow> (st', es, Raised e)
              | (es, Returned) \<Rightarrow>
                  (case raises tg GetMe of
                     Some e \<Rightarrow> (st', es @ [GetMe], Raised e)
                   | None \<Rightarrow>
                       prepend (es @ [GetMe])
                         (finish st' (run_calls tg
                            [if u_id (from_user m) = me_id tg
                             then EditMessageText (chat_id m) (msg_id m) (gettext c ''User unbanned'') (back_markup c)
                             else SendMessage (group_id c) (gettext c ''User unbanned'') NoThread (back_markup c)])))))"

text \<open>command_handler.py:67-117.\<close>

definition unban_user :: "ctx \<Rightarrow> env \<Rightarrow> store \<Rightarrow> message \<Rightarrow> int option \<Rightarrow> result" where
  "unban_user c tg st m user_id =
     (if chat_id m \<noteq> group_id c then admin_only c tg st m
      else
        (case user_id of
           Some u \<Rightarrow> unban_by_user c tg st m u
         | None \<Rightarrow>
             if check_valid_chat c m then
               (case msg_text m of
                  None \<Rightarrow> (st, [], Raised AttributeError)
                | Some t \<Rightarrow>
                    (let msg_split = split_space t in
                     if length msg_split \<noteq> 2
                     then finish st (run_calls tg [ReplyTo (chat_id m) (msg_id m) unban_usage []])
                     else (case py_int (msg_split ! 1) of
                             None \<Rightarrow> (st, [], Raised ValueError)
                           | Some u \<Rightarrow> unban_by_user c tg st m u)))
             else unban_by_thread c tg st m))"

section \<open>src/handlers/callback_handler.py: class CallbackHandler\<close>

record callback_query =
  cq_id :: string
  cq_data :: string
  cq_message :: message

text \<open>\<open>data.get(k)\<close>, \<open>k in data\<close> and \<open>data[k]\<close> on a decoded object.\<close>

definition dict_get :: "(string \<times> json) list \<Rightarrow> string \<Rightarrow> json option" where
  "dict_get d k = map_of d k"

text \<open>Python truth of a decoded value.\<close>

fun truthy :: "json \<Rightarrow> bool" where
  "truthy JNull = False"
| "truthy (JBool b) = b"
| "truthy (JInt i) = (i \<noteq> 0)"
| "truthy (JStr s) = (s \<noteq> [])"
| "truthy (JList xs) = (xs \<noteq> [])"
| "truthy (JObj kvs) = (kvs \<noteq> [])"

text \<open>
  An id taken from a payload and handed to \<open>terminate_thread\<close> or \<open>unban_user\<close>,
  where it is first bound to a query. The keyboards put integers there, and the model
  covers those (and \<open>None\<close>): an integer that does not fit 64 bits raises
  \<open>OverflowError\<close>, a list or an object cannot be bound (\<open>InterfaceError\<close>). Two
  kinds of value are outside the model: the comparison of a string with the integer
  column, which ends like a list here, and a boolean, which is bound as 1 or 0 as here
  but which \<open>terminate_thread\<close> would print as \<open>True\<close> or \<open>False\<close> in the cache key, the
  remote call and the log.
\<close>

definition json_id :: "json option \<Rightarrow> exn + int option" where
  "json_id j =
     (case j of
        None \<Rightarrow> Inr None
      | Some JNull \<Rightarrow> Inr None
      | Some (JInt i) \<Rightarrow> if sqlite_int i then Inr (Some i) else Inl OverflowError
      | Some (JBool b) \<Rightarrow> Inr (Some (if b then 1 else 0))
      | Some _ \<Rightarrow> Inl InterfaceError)"

text \<open>
  A call of a method of the admin handler or of the captcha manager, neither of which
  is part of the sources: the call is an effect that may raise, and what it does to
  the store is a parameter.
\<close>

definition collaborator :: "(effect \<Rightarrow> store \<Rightarrow> store) \<Rightarrow> env \<Rightarrow> store \<Rightarrow> effect \<Rightarrow> result" where
  "collaborator absent tg st call =
     (case raises tg call of
        Some e \<Rightarrow> (st, [call], Raised e)
      | None \<Rightarrow> (absent call st, [call], Returned))"

text \<open>callback_handler.py:46-59.\<close>

definition handle_verify_button ::
  "(effect \<Rightarrow> store \<Rightarrow> store) \<Rightarrow> ctx \<Rightarrow> env \<Rightarrow> store \<Rightarrow> callback_query \<Rightarrow> (string \<times> json) list \<Rightarrow> result" where
  "handle_verify_button absent c tg st call data =
     (case dict_get data ''user_id'' of
        Some user_id \<Rightarrow>
          if truthy user_id then
            (case collaborator absent tg st (SetUserVerified user_id) of
               (st', es, Raised e) \<Rightarrow> (st', es, Raised e)
             | (st', es, Returned) \<Rightarrow>
                 prepend es (finish st' (run_calls tg
                   [AnswerCallbackQuery (cq_id call),
                    SendMessageTo user_id (gettext c ''Verification successful, you can now send messages''),
                    DeleteMessage (chat_id (cq_message call)) (msg_id (cq_message call))])))
          else finish st (run_calls tg
                 [AnswerCallbackQuery (cq_id call),
                  SendMessage (chat_id (cq_message call)) (gettext c ''Invalid user ID'') NoThread []])
      | None \<Rightarrow>
          finish st (run_calls tg
            [AnswerCallbackQuery (cq_id call),
             SendMessage (chat_id (cq_message call)) (gettext c ''Invalid user ID'') NoThread []]))"

text \<open>
  callback_handler.py:81-84 and its three copies: the reply to a payload without
  \<open>"id"\<close>. The keyboard passed along is empty (the back button is never added).
\<close>

definition invalid_action :: "ctx \<Rightarrow> env \<Rightarrow> store \<Rightarrow> callback_query \<Rightarrow> result" where
  "invalid_action c tg st call =
     finish st (run_calls tg
       [DeleteMessage (group_id c) (msg_id (cq_message call)),
        SendMessage (group_id c) (gettext c ''Invalid action'') NoThread []])"

text \<open>
  callback_handler.py:127-133. \<open>terminate_thread\<close> looks at \<open>user_id\<close> only when
  \<open>thread_id\<close> is \<open>None\<close>.
\<close>

definition confirm_terminate ::
  "ctx \<Rightarrow> env \<Rightarrow> store \<Rightarrow> (string \<times> json) list \<Rightarrow> result" where
  "confirm_terminate c tg st data =
     (let failed = [LogError (gettext c ''Failed to terminate the thread'') [],
                    SendMessage (group_id c) (gettext c ''Failed to terminate the thread'') NoThread []];
          run = (\<lambda>thread_id user_id.
                   case terminate_thread c tg st thread_id user_id of
                     (st', es, Returned) \<Rightarrow> (st', es, Returned)
                   | (st', es, Raised e) \<Rightarrow> prepend es (finish st' (run_calls tg failed)))
      in case json_id (dict_get data ''thread_id'') of
           Inl e \<Rightarrow> finish st (run_calls tg failed)
         | Inr (Some t) \<Rightarrow> run (Some t) None
         | Inr None \<Rightarrow>
             (case json_id (dict_get data ''user_id'') of
                Inl e \<Rightarrow> finish st (run_calls tg failed)
              | Inr user_id \<Rightarrow> run None user_id))"

text \<open>
  callback_handler.py:61-138, the \<open>match\<close> on the action. Only a string equals one of
  the names; the last case concatenates the action to the log text, which is a
  \<open>TypeError\<close> for any other value.
\<close>

definition handle_admin_callback ::
  "(effect \<Rightarrow> store \<Rightarrow> store) \<Rightarrow> ctx \<Rightarrow> env \<Rightarrow> store \<Rightarrow> callback_query \<Rightarrow> json \<Rightarrow> (string \<times> json) list \<Rightarrow> result" where
  "handle_admin_callback absent c tg st call action data =
     (let m = cq_message call;
          admin = (\<lambda>name args. collaborator absent tg st (AdminHandler name m args));
          with_id = (\<lambda>k. case dict_get data ''id'' of None \<Rightarrow> invalid_action c tg st call | Some i \<Rightarrow> k i)
      in case action of
           JStr a \<Rightarrow>
             if a = ''menu'' then admin ''menu'' [JBool True]
             else if a = ''auto_reply'' then admin ''auto_reply_menu'' []
             else if a = ''set_auto_response_time'' then admin ''handle_auto_response_time_callback'' [JObj data]
             else if a = ''start_add_auto_reply'' then admin ''add_auto_response'' []
             else if a = ''add_auto_reply'' then admin ''process_add_auto_reply'' []
             else if a = ''manage_auto_reply''
               then admin ''manage_auto_reply'' [case dict_get data ''page'' of None \<Rightarrow> JInt 1 | Some pg \<Rightarrow> pg]
             else if a = ''select_auto_reply'' then with_id (\<lambda>i. admin ''select_auto_reply'' [i])
             else if a = ''delete_auto_reply'' then with_id (\<lambda>i. admin ''delete_auto_reply'' [i])
             else if a = ''ban_user'' then admin ''manage_ban_user'' []
             else if a = ''unban_user''
               then with_id (\<lambda>i. case json_id (Some i) of
                                    Inl e \<Rightarrow> (st, [], Raised e)
                                  | Inr user_id \<Rightarrow> unban_user c tg st m user_id)
             else if a = ''select_ban_user'' then with_id (\<lambda>i. admin ''select_ban_user'' [i])
             else if a = ''default_msg'' then admin ''default_msg_menu'' []
             else if a = ''edit_default_msg'' then admin ''edit_default_msg'' []
             else if a = ''empty_default_msg'' then admin ''empty_default_msg'' []
             else if a = ''captcha_settings'' then admin ''captcha_settings_menu'' []
             else if a = ''set_captcha''
               then (case dict_get data ''value'' of
                       None \<Rightarrow> (st, [], Raised KeyError)
                     | Some v \<Rightarrow> admin ''set_captcha'' [v])
             else if a = ''broadcast_message'' then admin ''broadcast_message'' []
             else if a = ''confirm_broadcast''
               then (let del = DeleteMessage (group_id c) (msg_id m)
                     in case raises tg del of
                          Some e \<Rightarrow> (st, [del], Raised e)
                        | None \<Rightarrow> prepend [del] (admin ''confirm_broadcast_message'' [JStr (cq_id call), JStr (cq_data call)]))
             else if a = ''cancel_broadcast''
               then (case run_calls tg [DeleteMessage (group_id c) (msg_id m),
                                        SendMessage (group_id c) (gettext c ''Broadcast cancelled'') NoThread []] of
                       (es, Raised e) \<Rightarrow> (st, es, Raised e)
                     | (es, Returned) \<Rightarrow> prepend es (admin ''cancel_broadcast'' []))
             else if a = ''time_zone_settings'' then admin ''time_zone_settings_menu'' []
             else if a = ''confirm_terminate'' then confirm_terminate c tg st data
             else if a = ''cancel_terminate''
               then finish st (run_calls tg
                      [EditMessageText (chat_id m) (msg_id m) (gettext c ''Operation cancelled'') []])
             else (st, [LogError (gettext c ''Invalid action received'' @ a) []], Returned)
         | _ \<Rightarrow> (st, [], Raised TypeError))"

text \<open>
  callback_handler.py:20-44. Only \<open>JSONDecodeError\<close> is caught around the decoding:
  \<open>data["action"]\<close> on an object without that key is a \<open>KeyError\<close>, on a value that is
  not an object a \<open>TypeError\<close>.
\<close>

definition handle_callback_query ::
  "(effect \<Rightarrow> store \<Rightarrow> store) \<Rightarrow> ctx \<Rightarrow> env \<Rightarrow> store \<Rightarrow> callback_query \<Rightarrow> result" where
  "handle_callback_query absent c tg st call =
     (if cq_data call = ''null''
      then (st, [LogError (gettext c ''Invalid callback data received'') []], Returned)
      else
        (case json_loads c (cq_data call) of
           None \<Rightarrow> (st, [LogError (gettext c ''Invalid JSON data received'') []], Returned)
         | Some (JObj data) \<Rightarrow>
             (case dict_get data ''action'' of
                None \<Rightarrow> (st, [], Raised KeyError)
              | Some action \<Rightarrow>
                  (let answer = AnswerCallbackQuery (cq_id call)
                   in case raises tg answer of
                        Some e \<Rightarrow> (st, [answer], Raised e)
                      | None \<Rightarrow>
                          if action = JStr ''verify_button''
                          then prepend [answer] (handle_verify_button absent c tg st call data)
                          else if chat_id (cq_message call) \<noteq> group_id c then (st, [answer], Returned)
                          else prepend [answer] (handle_admin_callback absent c tg st call action data)))
         | Some _ \<Rightarrow> (st, [], Raised TypeError)))"

section \<open>Sample data\<close>

text \<open>
  A configuration without translation catalogue (gettext returns the message id), an
  environment in which every remote call succeeds, a user and a few messages.
\<close>

text \<open>
  \<open>json.loads\<close> on the two payloads of the examples; no other string of the examples
  below is handed to it.
\<close>

definition sample_loads :: "string \<Rightarrow> json option" where
  \<open>sample_loads s =
     (if s = ''{"action": "frobnicate"}'' then Some (JObj [(''action'', JStr ''frobnicate'')])
      else if s = ''{"action": "select_auto_reply"}'' then Some (JObj [(''action'', JStr ''select_auto_reply'')])
      else None)\<close>

definition bot_ctx :: ctx where
  "bot_ctx = \<lparr>group_id = -100, gettext = (\<lambda>s. s), json_loads = sample_loads\<rparr>"

definition env_ok :: env where
  "env_ok = \<lparr>fails = (\<lambda>c. None), new_thread_id = (\<lambda>g n. 7), sent_message_id = (\<lambda>c. 500),
             member_status = (\<lambda>g u. ''administrator''), me_id = 999, now_text = ''2024-01-01 12:00:00''\<rparr>"

definition alice :: tg_user where
  "alice = \<lparr>u_id = 42, first_name = ''Alice'', last_name = None, username = Some ''alice''\<rparr>"

definition text_message :: "int \<Rightarrow> int \<Rightarrow> int option \<Rightarrow> string \<Rightarrow> message" where
  "text_message mid chat thread txt =
     \<lparr>msg_id = mid, chat_id = chat, message_thread_id = thread, from_user = alice,
      msg_text = Some txt, content_type = ''text'', caption = None, photo = None,
      sticker = None, video = None, document = None\<rparr>"

definition empty_store :: store where
  "empty_store = \<lparr>topics = [], messages = [], auto_response = [], cache = []\<rparr>"

definition copy_a :: pair where
  "copy_a = \<lparr>received_id = 20, forwarded_id = 35, topic_id = 7, in_group = True\<rparr>"

definition copy_b :: pair where
  "copy_b = \<lparr>received_id = 300, forwarded_id = 20, topic_id = 7, in_group = True\<rparr>"

definition tie_store :: store where
  "tie_store = \<lparr>topics = [\<lparr>t_user_id = 42, t_thread_id = 7, ban = 0\<rparr>],
                 messages = [copy_a, copy_b], auto_response = [], cache = []\<rparr>"

definition react_user :: reaction_update where
  "react_user = \<lparr>ru_chat_id = 42, ru_message_id = 20, new_reaction = [''a'', ''b'']\<rparr>"

definition unreact_group :: reaction_update where
  "unreact_group = \<lparr>ru_chat_id = -100, ru_message_id = 300, new_reaction = []\<rparr>"

definition relay_pair :: pair where
  "relay_pair = \<lparr>received_id = 11, forwarded_id = 210, topic_id = 7, in_group = False\<rparr>"

definition relay_store :: store where
  "relay_store = \<lparr>topics = [\<lparr>t_user_id = 42, t_thread_id = 7, ban = 0\<rparr>],
                   messages = [relay_pair], auto_response = [], cache = []\<rparr>"

text \<open>
  The store that is left when the remote deletion of thread 7 fails with a network
  error during \<open>terminate_thread\<close>: the topic row is gone, the pair is not. And a
  reaction in the group on the forwarded copy of that pair.
\<close>

definition orphan_store :: store where
  "orphan_store = \<lparr>topics = [], messages = [relay_pair], auto_response = [], cache = []\<rparr>"

definition react_group :: reaction_update where
  "react_group = \<lparr>ru_chat_id = -100, ru_message_id = 210, new_reaction = [''a'']\<rparr>"

definition caption_edit :: message where
  "caption_edit =
     \<lparr>msg_id = 11, chat_id = 42, message_thread_id = None, from_user = alice,
      msg_text = None, content_type = ''photo'', caption = Some ''new caption'',
      photo = Some [''small'', ''large''], sticker = None, video = None, document = None\<rparr>"

definition no_change :: "effect \<Rightarrow> store \<Rightarrow> store" where
  "no_change call st = st"

definition null_call :: callback_query where
  "null_call = \<lparr>cq_id = ''q1'', cq_data = ''null'', cq_message = text_message 77 (-100) None ''Menu''\<rparr>"

definition unknown_call :: callback_query where
  \<open>unknown_call = \<lparr>cq_id = ''q2'', cq_data = ''{"action": "frobnicate"}'',
                    cq_message = text_message 77 (-100) None ''Menu''\<rparr>\<close>

definition select_call :: callback_query where
  \<open>select_call = \<lparr>cq_id = ''q3'', cq_data = ''{"action": "select_auto_reply"}'',
                   cq_message = text_message 77 (-100) None ''Menu''\<rparr>\<close>

text \<open>
  The action names that \<open>handle_callback_query\<close> and \<open>_handle_admin_callback\<close> compare
  with, and those of them that need an \<open>"id"\<close>.
\<close>

definition known_actions :: "string list" where
  "known_actions =
     [''verify_button'', ''menu'', ''auto_reply'', ''set_auto_response_time'', ''start_add_auto_reply'',
      ''add_auto_reply'', ''manage_auto_reply'', ''select_auto_reply'', ''delete_auto_reply'',
      ''ban_user'', ''unban_user'', ''select_ban_user'', ''default_msg'', ''edit_default_msg'',
      ''empty_default_msg'', ''captcha_settings'', ''set_captcha'', ''broadcast_message'',
      ''confirm_broadcast'', ''cancel_broadcast'', ''time_zone_settings'', ''confirm_terminate'',
      ''cancel_terminate'']"

definition id_actions :: "string list" where
  "id_actions = [''select_auto_reply'', ''delete_auto_reply'', ''unban_user'', ''select_ban_user'']"

definition hello_message :: message where
  "hello_message = text_message 12 42 None ''hello''"

definition alice_topic :: topic where
  "alice_topic = \<lparr>t_user_id = 42, t_thread_id = 7, ban = 0\<rparr>"

definition alice_store :: store where
  "alice_store = \<lparr>topics = [alice_topic], messages = [], auto_response = [], cache = []\<rparr>"

definition bob :: tg_user where
  "bob = \<lparr>u_id = 1005, first_name = ''Bob'', last_name = Some ''Builder'', username = None\<rparr>"

definition bob_message :: message where
  "bob_message = (text_message 15 1005 None ''hi'')\<lparr>from_user := bob\<rparr>"

definition hello_rule :: auto_rule where
  "hello_rule = \<lparr>rule_key = ''hello'', rule_value = ''Hi, we will answer soon'', topic_action = 0\<rparr>"

definition hours_rule :: auto_rule where
  "hours_rule = \<lparr>rule_key = ''hours'', rule_value = ''Open 9 to 5'', topic_action = 1\<rparr>"

definition rules_store :: store where
  "rules_store = \<lparr>topics = [alice_topic], messages = [], auto_response = [hello_rule, hours_rule], cache = []\<rparr>"

definition hours_message :: message where
  "hours_message = text_message 13 42 None ''hours''"

text \<open>
  Environments in which the deletion of forum topic 7 fails: with a network error
  (\<open>env_down\<close>) and with an error answer of the API (\<open>env_gone\<close>). In \<open>env_next\<close> the
  next forum topic created gets id 8.
\<close>

definition env_down :: env where
  "env_down = env_ok\<lparr>fails := (\<lambda>call. if call = DeleteForumTopic (-100) (Some 7) then Some RequestException else None)\<rparr>"

definition env_gone :: env where
  "env_gone = env_ok\<lparr>fails := (\<lambda>call. if call = DeleteForumTopic (-100) (Some 7) then Some ApiTelegramException else None)\<rparr>"

definition cached_store :: store where
  "cached_store = relay_store\<lparr>cache := [(''chat_42_threadid'', 7), (''threadid_7_userid'', 42), (''chat_43_threadid'', 8)]\<rparr>"




section \<open>Properties\<close>

subsection \<open>Auxiliary facts\<close>

lemma find_None_iff2: "find P xs = None \<longleftrightarrow> (\<forall>x\<in>set xs. \<not> P x)"
  by (induction xs) auto

lemma run_calls_one:
  "run_calls tg [a] = ([a], case raises tg a of None \<Rightarrow> Returned | Some e \<Rightarrow> Raised e)"
  by (simp split: option.split)

lemma run_calls_two:
  "run_calls tg [a, b] =
     (case raises tg a of
        Some e \<Rightarrow> ([a], Raised e)
      | None \<Rightarrow> ([a, b], case raises tg b of None \<Rightarrow> Returned | Some e \<Rightarrow> Raised e))"
  by (simp split: option.split)

lemma find_snoc:
  "find P (xs @ [x]) = (case find P xs of Some y \<Rightarrow> Some y | None \<Rightarrow> if P x then Some x else None)"
  by (induction xs) auto

subsection \<open>Messages in a thread without topic\<close>

text \<open>
  C10. A message posted in a thread of the group for which \<open>topics\<close> has no row is not
  relayed and the store stays as it is: the handler posts the notice "Chat not found,
  please remove this topic manually" into that thread and then closes the forum topic
  (the close is reached when the notice did not raise). These are its only effects.
\<close>

theorem handle_messages_unknown_thread:
  assumes "chat_id m = group_id c" and "message_thread_id m = Some t"
    and "\<forall>r\<in>set (topics st). t_thread_id r \<noteq> t"
  shows "handle_messages c tg st m =
           (let notice = SendMessage (group_id c)
                           (gettext c ''Chat not found, please remove this topic manually'') (ThreadId t) [];
                close = CloseForumTopic (group_id c) (Some t)
            in case raises tg notice of
                 Some e \<Rightarrow> (st, [notice], Raised e)
               | None \<Rightarrow> (st, [notice, close],
                           case raises tg close of None \<Rightarrow> Returned | Some e \<Rightarrow> Raised e))"
proof -
  have "find (\<lambda>r. Some (t_thread_id r) = message_thread_id m) (topics st) = None"
    using assms by (simp add: find_None_iff2)
  then show ?thesis
    using assms
    by (simp add: handle_messages_def forward_to_user_def opt_thread_def finish_def
        run_calls_two Let_def del: run_calls.simps split: option.split)
qed

theorem handle_messages_unknown_thread_witness:
  "handle_messages bot_ctx env_ok empty_store (text_message 9 (-100) (Some 5) ''hi'') =
     (empty_store,
      [SendMessage (-100) ''Chat not found, please remove this topic manually'' (ThreadId 5) [],
       CloseForumTopic (-100) (Some 5)],
      Returned)"
  using handle_messages_unknown_thread [of "text_message 9 (-100) (Some 5) ''hi''" bot_ctx 5 empty_store env_ok]
  by (simp add: bot_ctx_def env_ok_def empty_store_def text_message_def raises_def)

subsection \<open>The main thread cannot be terminated\<close>

text \<open>
  C4. A \<open>/terminate\<close> sent in the group inside thread 1 is rejected: both versions of
  \<open>handle_terminate\<close> reply "Cannot terminate main thread" and leave the store (topics,
  messages, cache) as it was. \<open>CommandHandler.handle_terminate\<close> asks for the sender's
  membership first and gives this reply to administrators and the creator; whatever
  the answer, it does not touch the store.
\<close>

theorem terminate_main_thread_rejected:
  assumes "chat_id m = group_id c" and "message_thread_id m = Some 1"
  shows "(let reply = ReplyTo (chat_id m) (msg_id m) (gettext c ''Cannot terminate main thread'') [];
              out = (case raises tg reply of None \<Rightarrow> Returned | Some e \<Rightarrow> Raised e);
              member = GetChatMember (chat_id m) (u_id (from_user m));
              status = member_status tg (chat_id m) (u_id (from_user m))
          in tgbot_handle_terminate c tg st m = (st, [reply], out)
           \<and> fst (handle_terminate c tg st m) = st
           \<and> (raises tg member = None \<and> (status = ''administrator'' \<or> status = ''creator'')
                \<longrightarrow> handle_terminate c tg st m = (st, [member, reply], out)))"
  using assms
  by (simp add: tgbot_handle_terminate_def handle_terminate_def ask_terminate_def admin_only_def
      finish_def prepend_def run_calls_one Let_def del: run_calls.simps split: option.split)

theorem terminate_main_thread_rejected_witness:
  "tgbot_handle_terminate bot_ctx env_ok empty_store (text_message 9 (-100) (Some 1) ''/terminate'') =
     (empty_store, [ReplyTo (-100) 9 ''Cannot terminate main thread'' []], Returned)
   \<and> handle_terminate bot_ctx env_ok empty_store (text_message 9 (-100) (Some 1) ''/terminate'') =
     (empty_store, [GetChatMember (-100) 42, ReplyTo (-100) 9 ''Cannot terminate main thread'' []], Returned)"
  using terminate_main_thread_rejected [of "text_message 9 (-100) (Some 1) ''/terminate''" bot_ctx env_ok empty_store]
  by (simp add: bot_ctx_def env_ok_def text_message_def raises_def alice_def Let_def)

subsection \<open>Reactions\<close>

lemma handle_reaction_found:
  assumes "reaction_lookup st (ru_message_id ev) = Some (topic, counterpart)"
  shows "handle_reaction c tg st ev =
           (if ru_chat_id ev = group_id c then
              (case find (\<lambda>r. t_thread_id r = topic) (topics st) of
                 None \<Rightarrow> (st, [], Returned)
               | Some r \<Rightarrow>
                   (st, [SetMessageReaction (t_user_id r) counterpart (reaction_arg ev)],
                    case raises tg (SetMessageReaction (t_user_id r) counterpart (reaction_arg ev)) of
                      None \<Rightarrow> Returned | Some e \<Rightarrow> Raised e))
            else
              (st, [SetMessageReaction (group_id c) counterpart (reaction_arg ev)],
               case raises tg (SetMessageReaction (group_id c) counterpart (reaction_arg ev)) of
                 None \<Rightarrow> Returned | Some e \<Rightarrow> Raised e))"
  using assms
  by (simp add: handle_reaction_def finish_def run_calls_one del: run_calls.simps split: option.split)

text \<open>
  C6 (as amended). A reaction event whose message id is the \<open>forwarded_id\<close> of a pair, or
  failing that the \<open>received_id\<close> of a pair, is applied to the other id of that pair: in
  the group chat when the event comes from a user, and in the chat of the thread's user
  when it comes from the group and the pair's topic has a row. The reaction set is the
  last one of the event's list, or none when the list is empty. When no pair matches
  on either column, and when the event comes from the group and the pair's topic has
  no row, the handler does nothing.
\<close>

theorem handle_reaction_counterpart:
  "((\<forall>p\<in>set (messages st). forwarded_id p \<noteq> ru_message_id ev \<and> received_id p \<noteq> ru_message_id ev)
      \<longrightarrow> handle_reaction c tg st ev = (st, [], Returned))
   \<and> (\<forall>p counterpart.
        (find (\<lambda>p. forwarded_id p = ru_message_id ev) (messages st) = Some p \<and> counterpart = received_id p
         \<or> find (\<lambda>p. forwarded_id p = ru_message_id ev) (messages st) = None
           \<and> find (\<lambda>p. received_id p = ru_message_id ev) (messages st) = Some p \<and> counterpart = forwarded_id p)
        \<longrightarrow>
        (ru_chat_id ev \<noteq> group_id c \<longrightarrow>
           handle_reaction c tg st ev =
             (st, [SetMessageReaction (group_id c) counterpart (reaction_arg ev)],
              case raises tg (SetMessageReaction (group_id c) counterpart (reaction_arg ev)) of
                None \<Rightarrow> Returned | Some e \<Rightarrow> Raised e))
        \<and> (\<forall>r. ru_chat_id ev = group_id c
                \<and> find (\<lambda>r. t_thread_id r = topic_id p) (topics st) = Some r \<longrightarrow>
           handle_reaction c tg st ev =
             (st, [SetMessageReaction (t_user_id r) counterpart (reaction_arg ev)],
              case raises tg (SetMessageReaction (t_user_id r) counterpart (reaction_arg ev)) of
                None \<Rightarrow> Returned | Some e \<Rightarrow> Raised e))
        \<and> (ru_chat_id ev = group_id c
             \<and> find (\<lambda>r. t_thread_id r = topic_id p) (topics st) = None \<longrightarrow>
           handle_reaction c tg st ev = (st, [], Returned)))
   \<and> reaction_arg ev = (if new_reaction ev = [] then [] else [last (new_reaction ev)])"
proof (intro conjI allI impI)
  assume "\<forall>p\<in>set (messages st). forwarded_id p \<noteq> ru_message_id ev \<and> received_id p \<noteq> ru_message_id ev"
  then have "find (\<lambda>p. forwarded_id p = ru_message_id ev) (messages st) = None"
    and "find (\<lambda>p. received_id p = ru_message_id ev) (messages st) = None"
    by (simp_all add: find_None_iff2)
  then have "reaction_lookup st (ru_message_id ev) = None"
    by (simp add: reaction_lookup_def)
  then show "handle_reaction c tg st ev = (st, [], Returned)"
    by (simp add: handle_reaction_def)
next
  show "reaction_arg ev = (if new_reaction ev = [] then [] else [last (new_reaction ev)])"
    by (simp add: reaction_arg_def)
next
  fix p counterpart
  assume H: "find (\<lambda>p. forwarded_id p = ru_message_id ev) (messages st) = Some p \<and> counterpart = received_id p
         \<or> find (\<lambda>p. forwarded_id p = ru_message_id ev) (messages st) = None
           \<and> find (\<lambda>p. received_id p = ru_message_id ev) (messages st) = Some p \<and> counterpart = forwarded_id p"
  then have L: "reaction_lookup st (ru_message_id ev) = Some (topic_id p, counterpart)"
    by (auto simp: reaction_lookup_def)
  { assume "ru_chat_id ev \<noteq> group_id c"
    then show "handle_reaction c tg st ev =
             (st, [SetMessageReaction (group_id c) counterpart (reaction_arg ev)],
              case raises tg (SetMessageReaction (group_id c) counterpart (reaction_arg ev)) of
                None \<Rightarrow> Returned | Some e \<Rightarrow> Raised e)"
      by (simp add: handle_reaction_found [OF L]) }
  { fix r assume "ru_chat_id ev = group_id c
                \<and> find (\<lambda>r. t_thread_id r = topic_id p) (topics st) = Some r"
    then show "handle_reaction c tg st ev =
             (st, [SetMessageReaction (t_user_id r) counterpart (reaction_arg ev)],
              case raises tg (SetMessageReaction (t_user_id r) counterpart (reaction_arg ev)) of
                None \<Rightarrow> Returned | Some e \<Rightarrow> Raised e)"
      by (simp add: handle_reaction_found [OF L]) }
  { assume "ru_chat_id ev = group_id c
             \<and> find (\<lambda>r. t_thread_id r = topic_id p) (topics st) = None"
    then show "handle_reaction c tg st ev = (st, [], Returned)"
      by (simp add: handle_reaction_found [OF L]) }
qed

theorem handle_reaction_counterpart_witness:
  "handle_reaction bot_ctx env_ok tie_store unreact_group =
     (tie_store, [SetMessageReaction 42 20 []], Returned)"
  using handle_reaction_counterpart [of tie_store unreact_group bot_ctx env_ok]
  by (simp add: tie_store_def copy_a_def copy_b_def bot_ctx_def env_ok_def raises_def
      unreact_group_def)

text \<open>
  The claim without the condition on the topic fails. In \<open>orphan_store\<close> message 210
  of the group is the \<open>forwarded_id\<close> of a stored pair whose topic row is gone: a
  reaction on it in the group sets nothing.
\<close>

theorem handle_reaction_orphan_counterexample:
  "relay_pair \<in> set (messages orphan_store) \<and> forwarded_id relay_pair = ru_message_id react_group
   \<and> handle_reaction bot_ctx env_ok orphan_store react_group = (orphan_store, [], Returned)"
  by (simp add: handle_reaction_def reaction_lookup_def orphan_store_def relay_pair_def
      bot_ctx_def react_group_def)

text \<open>
  C7 (as amended). When the message id of a reaction event is both the \<open>forwarded_id\<close>
  of a pair \<open>p\<close> and the \<open>received_id\<close> of a pair \<open>q\<close>, the lookup by \<open>forwarded_id\<close> runs
  first and wins: the reaction goes to \<open>received_id p\<close>; \<open>q\<close> plays no part. (The lookup
  by \<open>received_id\<close> is the fallback, see the previous theorem.)
\<close>

theorem reaction_tie_forwarded_first:
  assumes "find (\<lambda>p. forwarded_id p = ru_message_id ev) (messages st) = Some p"
    and "find (\<lambda>p. received_id p = ru_message_id ev) (messages st) = Some q"
  shows "reaction_lookup st (ru_message_id ev) = Some (topic_id p, received_id p)
       \<and> (ru_chat_id ev \<noteq> group_id c \<longrightarrow>
            handle_reaction c tg st ev =
              (st, [SetMessageReaction (group_id c) (received_id p) (reaction_arg ev)],
               case raises tg (SetMessageReaction (group_id c) (received_id p) (reaction_arg ev)) of
                 None \<Rightarrow> Returned | Some e \<Rightarrow> Raised e))
       \<and> (\<forall>r. ru_chat_id ev = group_id c
               \<and> find (\<lambda>r. t_thread_id r = topic_id p) (topics st) = Some r \<longrightarrow>
            handle_reaction c tg st ev =
              (st, [SetMessageReaction (t_user_id r) (received_id p) (reaction_arg ev)],
               case raises tg (SetMessageReaction (t_user_id r) (received_id p) (reaction_arg ev)) of
                 None \<Rightarrow> Returned | Some e \<Rightarrow> Raised e))"
proof -
  have L: "reaction_lookup st (ru_message_id ev) = Some (topic_id p, received_id p)"
    using assms(1) by (simp add: reaction_lookup_def)
  show ?thesis
    using L by (simp add: handle_reaction_found [OF L])
qed

theorem reaction_tie_forwarded_first_witness:
  "handle_reaction bot_ctx env_ok tie_store react_user =
     (tie_store, [SetMessageReaction (-100) 300 [''b'']], Returned)"
  using reaction_tie_forwarded_first [of react_user tie_store copy_b copy_a bot_ctx env_ok]
  by (simp add: tie_store_def copy_a_def copy_b_def bot_ctx_def env_ok_def raises_def
      reaction_arg_def react_user_def)

text \<open>
  Message id 20 is the \<open>received_id\<close> of \<open>copy_a\<close> (whose other id is 35) and the
  \<open>forwarded_id\<close> of \<open>copy_b\<close> (whose other id is 300): were the lookup by
  \<open>received_id\<close> first, the reaction would go to 35. It goes to 300.
\<close>

theorem reaction_tie_counterexample:
  "copy_a \<in> set (messages tie_store) \<and> received_id copy_a = ru_message_id react_user
   \<and> forwarded_id copy_a = 35
   \<and> handle_reaction bot_ctx env_ok tie_store react_user =
       (tie_store, [SetMessageReaction (-100) 300 [''b'']], Returned)"
  by (simp add: handle_reaction_def reaction_lookup_def tie_store_def copy_a_def copy_b_def
      bot_ctx_def env_ok_def raises_def reaction_arg_def finish_def react_user_def)

subsection \<open>Edited messages\<close>

text \<open>
  What \<open>handle_edit\<close> does on a miss and on a text message: without a pair for
  (\<open>received_id\<close>, \<open>in_group\<close>) it does nothing; an edit in the group whose pair has no
  topic row does nothing; a text message is edited on the other side, the suffix
  "(Edited at ...)" appended.
\<close>

lemma handle_edit_no_pair:
  assumes "\<forall>p\<in>set (messages st). \<not> (received_id p = msg_id m \<and> in_group p = (chat_id m = group_id c))"
  shows "handle_edit c tg st m = (st, [], Returned)"
proof -
  have "find (\<lambda>p. received_id p = msg_id m \<and> in_group p = (chat_id m = group_id c)) (messages st) = None"
    using assms by (simp add: find_None_iff2)
  then show ?thesis by (simp add: handle_edit_def)
qed

lemma handle_edit_no_topic:
  assumes "find (\<lambda>p. received_id p = msg_id m \<and> in_group p = (chat_id m = group_id c)) (messages st) = Some p"
    and "chat_id m = group_id c" and "msg_text m = Some t"
    and "find (\<lambda>r. t_thread_id r = topic_id p) (topics st) = None"
  shows "handle_edit c tg st m = (st, [], Returned)"
  using assms by (simp add: handle_edit_def)

lemma handle_edit_plain_text:
  assumes "find (\<lambda>p. received_id p = msg_id m \<and> in_group p = (chat_id m = group_id c)) (messages st) = Some p"
    and "\<not> check_valid_chat c m" and "msg_text m = Some t" and "content_type m = ''text''"
  shows "chat_id m \<noteq> group_id c \<Longrightarrow>
           handle_edit c tg st m =
             (st, [EditMessageText (group_id c) (forwarded_id p) (t @ edited_suffix c tg) []],
              case raises tg (EditMessageText (group_id c) (forwarded_id p) (t @ edited_suffix c tg) []) of
                None \<Rightarrow> Returned | Some e \<Rightarrow> Raised e)"
    and "chat_id m = group_id c \<Longrightarrow> find (\<lambda>r. t_thread_id r = topic_id p) (topics st) = Some r \<Longrightarrow>
           handle_edit c tg st m =
             (st, [EditMessageText (t_user_id r) (forwarded_id p) (t @ edited_suffix c tg) []],
              case raises tg (EditMessageText (t_user_id r) (forwarded_id p) (t @ edited_suffix c tg) []) of
                None \<Rightarrow> Returned | Some e \<Rightarrow> Raised e)"
  using assms
  by (simp_all add: handle_edit_def finish_def run_calls_one Let_def del: run_calls.simps)

text \<open>
  A message without text whose pair exists: the handler raises before it looks at the
  content type.
\<close>

lemma handle_edit_not_text_raises:
  assumes "find (\<lambda>p. received_id p = msg_id m \<and> in_group p = (chat_id m = group_id c)) (messages st) = Some p"
    and "\<not> check_valid_chat c m" and "msg_text m = None"
  shows "handle_edit c tg st m = (st, [], Raised TypeError)"
  using assms by (simp add: handle_edit_def)


text \<open>
  C5. The claim holds for a miss and for text messages (lemmas above), but not for an
  edited message that is not plain text: the edit of a photo caption by a user whose
  message has a pair ends in a \<open>TypeError\<close> instead of doing nothing.
\<close>

theorem handle_edit_photo_raises:
  "handle_edit bot_ctx env_ok relay_store caption_edit = (relay_store, [], Raised TypeError)"
  by (simp add: handle_edit_def check_valid_chat_def bot_ctx_def relay_store_def relay_pair_def
      caption_edit_def)

subsection \<open>Callback queries\<close>

lemma unknown_action_logged:
  assumes "a \<notin> set known_actions"
  shows "handle_admin_callback absent c tg st call (JStr a) data =
           (st, [LogError (gettext c ''Invalid action received'' @ a) []], Returned)"
proof -
  have "a \<noteq> ''menu''" "a \<noteq> ''auto_reply''" "a \<noteq> ''set_auto_response_time''"
    "a \<noteq> ''start_add_auto_reply''" "a \<noteq> ''add_auto_reply''" "a \<noteq> ''manage_auto_reply''"
    "a \<noteq> ''select_auto_reply''" "a \<noteq> ''delete_auto_reply''" "a \<noteq> ''ban_user''"
    "a \<noteq> ''unban_user''" "a \<noteq> ''select_ban_user''" "a \<noteq> ''default_msg''"
    "a \<noteq> ''edit_default_msg''" "a \<noteq> ''empty_default_msg''" "a \<noteq> ''captcha_settings''"
    "a \<noteq> ''set_captcha''" "a \<noteq> ''broadcast_message''" "a \<noteq> ''confirm_broadcast''"
    "a \<noteq> ''cancel_broadcast''" "a \<noteq> ''time_zone_settings''" "a \<noteq> ''confirm_terminate''"
    "a \<noteq> ''cancel_terminate''"
    using assms unfolding known_actions_def by auto
  then show ?thesis
    unfolding handle_admin_callback_def Let_def by (simp only: json.case if_False)
qed

lemma missing_id_invalid_action:
  assumes "a \<in> set id_actions" and "dict_get data ''id'' = None"
  shows "handle_admin_callback absent c tg st call (JStr a) data = invalid_action c tg st call"
proof -
  consider "a = ''select_auto_reply''" | "a = ''delete_auto_reply''" | "a = ''unban_user''"
    | "a = ''select_ban_user''"
    using assms(1) unfolding id_actions_def by auto
  then show ?thesis
  proof cases
    case 1 with assms(2) show ?thesis by (simp add: handle_admin_callback_def Let_def)
  next
    case 2 with assms(2) show ?thesis by (simp add: handle_admin_callback_def Let_def)
  next
    case 3 with assms(2) show ?thesis by (simp add: handle_admin_callback_def Let_def)
  next
    case 4 with assms(2) show ?thesis by (simp add: handle_admin_callback_def Let_def)
  qed
qed

lemma callback_dispatch:
  assumes "cq_data call \<noteq> ''null''" and "json_loads c (cq_data call) = Some (JObj data)"
    and "dict_get data ''action'' = Some (JStr a)" and "a \<noteq> ''verify_button''"
    and "chat_id (cq_message call) = group_id c"
    and "raises tg (AnswerCallbackQuery (cq_id call)) = None"
  shows "handle_callback_query absent c tg st call =
           prepend [AnswerCallbackQuery (cq_id call)] (handle_admin_callback absent c tg st call (JStr a) data)"
  using assms by (simp add: handle_callback_query_def)

text \<open>
  C9 (as amended). A callback whose data is the text \<open>null\<close>, or is not JSON, is logged
  and dropped: nothing is sent. For a callback of the group whose data decodes to an
  object with a string action (and once the query was answered): an action that is
  none of the known names is logged and nothing else happens; one of the actions
  \<open>select_auto_reply\<close>, \<open>delete_auto_reply\<close>, \<open>unban_user\<close>, \<open>select_ban_user\<close> without
  an \<open>"id"\<close> deletes the menu message and sends "Invalid action" to the group.
\<close>

theorem callback_malformed_or_unknown:
  "(cq_data call = ''null'' \<longrightarrow>
      handle_callback_query absent c tg st call =
        (st, [LogError (gettext c ''Invalid callback data received'') []], Returned))
   \<and> (cq_data call \<noteq> ''null'' \<and> json_loads c (cq_data call) = None \<longrightarrow>
      handle_callback_query absent c tg st call =
        (st, [LogError (gettext c ''Invalid JSON data received'') []], Returned))
   \<and> (\<forall>data a.
        cq_data call \<noteq> ''null'' \<and> json_loads c (cq_data call) = Some (JObj data)
        \<and> dict_get data ''action'' = Some (JStr a)
        \<and> chat_id (cq_message call) = group_id c
        \<and> raises tg (AnswerCallbackQuery (cq_id call)) = None \<longrightarrow>
        (a \<notin> set known_actions \<longrightarrow>
           handle_callback_query absent c tg st call =
             (st, [AnswerCallbackQuery (cq_id call),
                   LogError (gettext c ''Invalid action received'' @ a) []], Returned))
        \<and> (a \<in> set id_actions \<and> dict_get data ''id'' = None \<longrightarrow>
           handle_callback_query absent c tg st call =
             (let del = DeleteMessage (group_id c) (msg_id (cq_message call));
                  reply = SendMessage (group_id c) (gettext c ''Invalid action'') NoThread []
              in case raises tg del of
                   Some e \<Rightarrow> (st, [AnswerCallbackQuery (cq_id call), del], Raised e)
                 | None \<Rightarrow> (st, [AnswerCallbackQuery (cq_id call), del, reply],
                             case raises tg reply of None \<Rightarrow> Returned | Some e \<Rightarrow> Raised e))))"
proof (intro conjI allI impI)
  assume "cq_data call = ''null''"
  then show "handle_callback_query absent c tg st call =
        (st, [LogError (gettext c ''Invalid callback data received'') []], Returned)"
    by (simp add: handle_callback_query_def)
next
  assume "cq_data call \<noteq> ''null'' \<and> json_loads c (cq_data call) = None"
  then show "handle_callback_query absent c tg st call =
        (st, [LogError (gettext c ''Invalid JSON data received'') []], Returned)"
    by (simp add: handle_callback_query_def)
next
  fix data a
  assume H: "cq_data call \<noteq> ''null'' \<and> json_loads c (cq_data call) = Some (JObj data)
        \<and> dict_get data ''action'' = Some (JStr a)
        \<and> chat_id (cq_message call) = group_id c
        \<and> raises tg (AnswerCallbackQuery (cq_id call)) = None"
  { assume U: "a \<notin> set known_actions"
    then have "a \<noteq> ''verify_button''" by (auto simp: known_actions_def)
    with H have "handle_callback_query absent c tg st call =
           prepend [AnswerCallbackQuery (cq_id call)] (handle_admin_callback absent c tg st call (JStr a) data)"
      by (intro callback_dispatch) simp_all
    then show "handle_callback_query absent c tg st call =
             (st, [AnswerCallbackQuery (cq_id call),
                   LogError (gettext c ''Invalid action received'' @ a) []], Returned)"
      by (simp add: unknown_action_logged [OF U] prepend_def) }
  { assume I: "a \<in> set id_actions \<and> dict_get data ''id'' = None"
    then have "a \<noteq> ''verify_button''" by (auto simp: id_actions_def)
    with H have "handle_callback_query absent c tg st call =
           prepend [AnswerCallbackQuery (cq_id call)] (handle_admin_callback absent c tg st call (JStr a) data)"
      by (intro callback_dispatch) simp_all
    moreover have "handle_admin_callback absent c tg st call (JStr a) data = invalid_action c tg st call"
      using I by (intro missing_id_invalid_action) simp_all
    ultimately show "handle_callback_query absent c tg st call =
             (let del = DeleteMessage (group_id c) (msg_id (cq_message call));
                  reply = SendMessage (group_id c) (gettext c ''Invalid action'') NoThread []
              in case raises tg del of
                   Some e \<Rightarrow> (st, [AnswerCallbackQuery (cq_id call), del], Raised e)
                 | None \<Rightarrow> (st, [AnswerCallbackQuery (cq_id call), del, reply],
                             case raises tg reply of None \<Rightarrow> Returned | Some e \<Rightarrow> Raised e))"
      by (simp add: invalid_action_def prepend_def finish_def run_calls_two Let_def
          del: run_calls.simps split: option.split) }
qed

theorem callback_malformed_or_unknown_witness:
  "handle_callback_query no_change bot_ctx env_ok empty_store unknown_call =
     (empty_store, [AnswerCallbackQuery ''q2'', LogError ''Invalid action receivedfrobnicate'' []], Returned)
   \<and> handle_callback_query no_change bot_ctx env_ok empty_store select_call =
     (empty_store, [AnswerCallbackQuery ''q3'', DeleteMessage (-100) 77,
                    SendMessage (-100) ''Invalid action'' NoThread []], Returned)"
  using callback_malformed_or_unknown [of unknown_call no_change bot_ctx env_ok empty_store]
    callback_malformed_or_unknown [of select_call no_change bot_ctx env_ok empty_store]
  by (simp add: unknown_call_def select_call_def bot_ctx_def env_ok_def sample_loads_def
      text_message_def raises_def dict_get_def known_actions_def id_actions_def)

text \<open>
  A payload that decodes to no action at all, the text \<open>null\<close>, gets no "Invalid
  action" reply: it is logged and dropped.
\<close>

theorem callback_null_counterexample:
  "handle_callback_query no_change bot_ctx env_ok empty_store null_call =
     (empty_store, [LogError ''Invalid callback data received'' []], Returned)"
  by (simp add: handle_callback_query_def null_call_def bot_ctx_def)

subsection \<open>The thread of a user\<close>

lemma resolve_existing:
  assumes "find (\<lambda>r. t_user_id r = u_id (from_user m)) (topics st) = Some r"
  shows "resolve_or_create_thread c tg st m = (st, [], Inr (ThreadRow (t_thread_id r)))"
  using assms by (simp add: resolve_or_create_thread_def)

lemma resolve_continues:
  assumes "resolve_or_create_thread c tg st m = (st', es, Inr v)"
  shows "\<exists>r. find (\<lambda>r. t_user_id r = u_id (from_user m)) (topics st') = Some r
             \<and> thread_of v = Some (t_thread_id r)"
proof (cases "find (\<lambda>r. t_user_id r = u_id (from_user m)) (topics st)")
  case (Some r)
  with assms show ?thesis by (auto simp: resolve_or_create_thread_def)
next
  case None
  with assms show ?thesis
    by (auto simp: resolve_or_create_thread_def Let_def find_snoc split: option.splits)
qed

text \<open>
  C1. The lookup and creation step of \<open>handle_messages\<close> reuses the thread of the
  user's topics row when there is one, without any remote call and without touching
  the store. Only when there is none it creates a forum thread, appends one topics
  row for the user and posts and pins the identity card in the new thread: three
  lines with the user id, the full name (first name and, if set, last name) and the
  username ("@" and the name, or the translation of "Not set"). A failed creation
  changes nothing. Whenever the step yielded a thread, every later
  run of the step for the same user, whatever the remote side answers, yields that
  same thread and neither creates a thread nor changes the store. (On reuse the
  variable holds the fetched row \<open>(thread_id,)\<close> rather than the bare integer;
  \<open>thread_of\<close> reads the id out of either.)
\<close>

theorem resolve_or_create_thread_idempotent:
  "(\<forall>r. find (\<lambda>r. t_user_id r = u_id (from_user m)) (topics st) = Some r \<longrightarrow>
        resolve_or_create_thread c tg st m = (st, [], Inr (ThreadRow (t_thread_id r))))
   \<and> ((\<forall>r\<in>set (topics st). t_user_id r \<noteq> u_id (from_user m)) \<longrightarrow>
        (let creating = LogInfo (gettext c ''Creating a new thread for user {}'') [str_int (u_id (from_user m))];
             create = CreateForumTopic (group_id c) (first_name (from_user m));
             tid = new_thread_id tg (group_id c) (first_name (from_user m));
             st' = st\<lparr>topics := topics st @ [\<lparr>t_user_id = u_id (from_user m), t_thread_id = tid, ban = 0\<rparr>]\<rparr>;
             card = SendMessage (group_id c)
                      (''User ID: '' @ str_int (u_id (from_user m)) @ [CHR 0x0A]
                       @ ''Full Name: '' @ first_name (from_user m)
                       @ (case last_name (from_user m) of None \<Rightarrow> [] | Some l \<Rightarrow> '' '' @ l) @ [CHR 0x0A]
                       @ ''Username: ''
                       @ (case username (from_user m) of None \<Rightarrow> gettext c ''Not set'' | Some n \<Rightarrow> ''@'' @ n)
                       @ [CHR 0x0A])
                      (ThreadId tid) [];
             pin = PinChatMessage (group_id c) (sent_message_id tg card)
         in (raises tg create = None \<and> raises tg card = None \<and> raises tg pin = None \<longrightarrow>
               resolve_or_create_thread c tg st m = (st', [creating, create, card, pin], Inr (ThreadId tid)))
          \<and> (\<forall>e. raises tg create = Some e \<longrightarrow>
               resolve_or_create_thread c tg st m = (st, [creating, create, LogException e], Inl Returned))))
   \<and> (\<forall>st' es v. resolve_or_create_thread c tg st m = (st', es, Inr v) \<longrightarrow>
        (\<exists>t. thread_of v = Some t
           \<and> (\<forall>tg' m'. u_id (from_user m') = u_id (from_user m) \<longrightarrow>
                resolve_or_create_thread c tg' st' m' = (st', [], Inr (ThreadRow t)))))"
proof (intro conjI allI impI)
  fix r assume "find (\<lambda>r. t_user_id r = u_id (from_user m)) (topics st) = Some r"
  then show "resolve_or_create_thread c tg st m = (st, [], Inr (ThreadRow (t_thread_id r)))"
    by (rule resolve_existing)
next
  assume "\<forall>r\<in>set (topics st). t_user_id r \<noteq> u_id (from_user m)"
  then have N: "find (\<lambda>r. t_user_id r = u_id (from_user m)) (topics st) = None"
    by (simp add: find_None_iff2)
  show "let creating = LogInfo (gettext c ''Creating a new thread for user {}'') [str_int (u_id (from_user m))];
             create = CreateForumTopic (group_id c) (first_name (from_user m));
             tid = new_thread_id tg (group_id c) (first_name (from_user m));
             st' = st\<lparr>topics := topics st @ [\<lparr>t_user_id = u_id (from_user m), t_thread_id = tid, ban = 0\<rparr>]\<rparr>;
             card = SendMessage (group_id c)
                      (''User ID: '' @ str_int (u_id (from_user m)) @ [CHR 0x0A]
                       @ ''Full Name: '' @ first_name (from_user m)
                       @ (case last_name (from_user m) of None \<Rightarrow> [] | Some l \<Rightarrow> '' '' @ l) @ [CHR 0x0A]
                       @ ''Username: ''
                       @ (case username (from_user m) of None \<Rightarrow> gettext c ''Not set'' | Some n \<Rightarrow> ''@'' @ n)
                       @ [CHR 0x0A])
                      (ThreadId tid) [];
             pin = PinChatMessage (group_id c) (sent_message_id tg card)
         in (raises tg create = None \<and> raises tg card = None \<and> raises tg pin = None \<longrightarrow>
               resolve_or_create_thread c tg st m = (st', [creating, create, card, pin], Inr (ThreadId tid)))
          \<and> (\<forall>e. raises tg create = Some e \<longrightarrow>
               resolve_or_create_thread c tg st m = (st, [creating, create, LogException e], Inl Returned))"
    using N unfolding resolve_or_create_thread_def identity_card_def nl_def Let_def by simp
next
  fix st' es v
  assume R: "resolve_or_create_thread c tg st m = (st', es, Inr v)"
  from resolve_continues [OF R] obtain r where
    F: "find (\<lambda>r. t_user_id r = u_id (from_user m)) (topics st') = Some r"
    and T: "thread_of v = Some (t_thread_id r)" by blast
  have "\<forall>tg' m'. u_id (from_user m') = u_id (from_user m) \<longrightarrow>
          resolve_or_create_thread c tg' st' m' = (st', [], Inr (ThreadRow (t_thread_id r)))"
    using F by (simp add: resolve_existing)
  with T show "\<exists>t. thread_of v = Some t
           \<and> (\<forall>tg' m'. u_id (from_user m') = u_id (from_user m) \<longrightarrow>
                resolve_or_create_thread c tg' st' m' = (st', [], Inr (ThreadRow t)))"
    by blast
qed

theorem resolve_or_create_thread_idempotent_witness:
  "resolve_or_create_thread bot_ctx env_ok empty_store hello_message =
     (alice_store,
      [LogInfo ''Creating a new thread for user {}'' [''42''],
       CreateForumTopic (-100) ''Alice'',
       SendMessage (-100)
         (''User ID: 42'' @ [CHR 0x0A] @ ''Full Name: Alice'' @ [CHR 0x0A] @ ''Username: @alice'' @ [CHR 0x0A])
         (ThreadId 7) [],
       PinChatMessage (-100) 500],
      Inr (ThreadId 7))
   \<and> resolve_or_create_thread bot_ctx env_ok alice_store hello_message =
       (alice_store, [], Inr (ThreadRow 7))
   \<and> resolve_or_create_thread bot_ctx env_ok alice_store bob_message =
       (alice_store\<lparr>topics := [alice_topic, \<lparr>t_user_id = 1005, t_thread_id = 7, ban = 0\<rparr>]\<rparr>,
        [LogInfo ''Creating a new thread for user {}'' [''1005''],
         CreateForumTopic (-100) ''Bob'',
         SendMessage (-100)
           (''User ID: 1005'' @ [CHR 0x0A] @ ''Full Name: Bob Builder'' @ [CHR 0x0A] @ ''Username: Not set'' @ [CHR 0x0A])
           (ThreadId 7) [],
         PinChatMessage (-100) 500],
        Inr (ThreadId 7))"
  using resolve_or_create_thread_idempotent [of hello_message empty_store bot_ctx env_ok]
    resolve_or_create_thread_idempotent [of hello_message alice_store bot_ctx env_ok]
    resolve_or_create_thread_idempotent [of bob_message alice_store bot_ctx env_ok]
  by (simp add: hello_message_def bob_message_def bob_def text_message_def alice_def empty_store_def
      alice_store_def alice_topic_def bot_ctx_def env_ok_def raises_def Let_def str_int_def
      str_nat.simps digit_chars_def)

subsection \<open>Auto-responses\<close>

lemma forward_to_group_ok:
  assumes "raises tg (ForwardMessage (group_id c) (chat_id m) th (msg_id m)) = None"
  shows "forward_to_group c tg m th rule =
           (case run_calls tg (auto_response_echo c th rule) of
              (es, out) \<Rightarrow> (ForwardMessage (group_id c) (chat_id m) th (msg_id m) # es, out))"
  using assms by (simp add: forward_to_group_def Let_def)

lemma handle_messages_no_rule:
  assumes "chat_id m \<noteq> group_id c" and "auto_response_lookup st (msg_text m) = None"
    and "resolve_or_create_thread c tg st m = (st', es, Inr th)"
    and "raises tg (ForwardMessage (group_id c) (chat_id m) th (msg_id m)) = None"
  shows "handle_messages c tg st m =
           (st', [LogInfo (gettext c ''Received message from {}, content: {}, type: {}'')
                    [str_int (u_id (from_user m)), str_opt (msg_text m), content_type m]]
                 @ es @ [ForwardMessage (group_id c) (chat_id m) th (msg_id m)], Returned)"
  using assms
  by (simp add: handle_messages_def relay_to_group_def prepend_def finish_def forward_to_group_ok
      auto_response_echo_def Let_def)

text \<open>
  C2. For a message of a user whose text is the key of an auto-response rule, the
  first remote call is the rule's response sent to the user. With \<open>topic_action\<close> 0
  that is all: nothing is forwarded and the store is unchanged. With a \<open>topic_action\<close>
  other than 0 the handler goes on as for any message (compare
  \<open>handle_messages_no_rule\<close>): it resolves the user's thread, forwards the message
  into it, and then posts "[Auto Response]" followed by the response into the same
  thread.
\<close>

theorem auto_response_gate:
  assumes "chat_id m \<noteq> group_id c" and "msg_text m = Some k"
    and "find (\<lambda>r. rule_key r = k) (auto_response st) = Some r"
  shows "(let received = LogInfo (gettext c ''Received message from {}, content: {}, type: {}'')
                           [str_int (u_id (from_user m)), k, content_type m];
              reply = SendMessage (chat_id m) (rule_value r) NoThread []
          in (\<exists>st' es out. handle_messages c tg st m = (st', received # reply # es, out))
           \<and> (topic_action r = 0 \<longrightarrow>
                handle_messages c tg st m =
                  (st, [received, reply], case raises tg reply of None \<Rightarrow> Returned | Some e \<Rightarrow> Raised e))
           \<and> (\<forall>st' es th.
                topic_action r \<noteq> 0 \<and> raises tg reply = None
                \<and> resolve_or_create_thread c tg st m = (st', es, Inr th)
                \<and> raises tg (ForwardMessage (group_id c) (chat_id m) th (msg_id m)) = None \<longrightarrow>
                handle_messages c tg st m =
                  (st', [received, reply] @ es
                        @ [ForwardMessage (group_id c) (chat_id m) th (msg_id m),
                           SendMessage (group_id c) (gettext c ''[Auto Response]'' @ rule_value r) th []],
                   case raises tg (SendMessage (group_id c) (gettext c ''[Auto Response]'' @ rule_value r) th []) of
                     None \<Rightarrow> Returned | Some e \<Rightarrow> Raised e)))"
proof -
  have L: "auto_response_lookup st (msg_text m) = Some r"
    using assms by (simp add: auto_response_lookup_def)
  define received where "received = LogInfo (gettext c ''Received message from {}, content: {}, type: {}'')
                           [str_int (u_id (from_user m)), k, content_type m]"
  define reply where "reply = SendMessage (chat_id m) (rule_value r) NoThread []"
  have H: "handle_messages c tg st m =
            (case raises tg reply of
               Some e \<Rightarrow> (st, [received, reply], Raised e)
             | None \<Rightarrow> if topic_action r = 0 then (st, [received, reply], Returned)
                        else prepend [received, reply] (relay_to_group c tg st m (Some r)))"
    using assms(1,2) L
    unfolding received_def reply_def
    by (simp add: handle_messages_def Let_def str_opt_def)
  have A: "\<exists>st' es out. handle_messages c tg st m = (st', received # reply # es, out)"
  proof (cases "relay_to_group c tg st m (Some r)")
    case (fields st' es out)
    then show ?thesis unfolding H by (auto simp: prepend_def split: option.split)
  qed
  have B: "topic_action r = 0 \<longrightarrow>
                handle_messages c tg st m =
                  (st, [received, reply], case raises tg reply of None \<Rightarrow> Returned | Some e \<Rightarrow> Raised e)"
    unfolding H by (simp split: option.split)
  have C: "\<forall>st' es th.
                topic_action r \<noteq> 0 \<and> raises tg reply = None
                \<and> resolve_or_create_thread c tg st m = (st', es, Inr th)
                \<and> raises tg (ForwardMessage (group_id c) (chat_id m) th (msg_id m)) = None \<longrightarrow>
                handle_messages c tg st m =
                  (st', [received, reply] @ es
                        @ [ForwardMessage (group_id c) (chat_id m) th (msg_id m),
                           SendMessage (group_id c) (gettext c ''[Auto Response]'' @ rule_value r) th []],
                   case raises tg (SendMessage (group_id c) (gettext c ''[Auto Response]'' @ rule_value r) th []) of
                     None \<Rightarrow> Returned | Some e \<Rightarrow> Raised e)"
    unfolding H
    by (simp add: relay_to_group_def prepend_def finish_def forward_to_group_ok
        auto_response_echo_def run_calls_one del: run_calls.simps)
  show ?thesis
    using A B C unfolding Let_def received_def reply_def by blast
qed

theorem auto_response_gate_witness:
  "handle_messages bot_ctx env_ok rules_store hello_message =
     (rules_store,
      [LogInfo ''Received message from {}, content: {}, type: {}'' [''42'', ''hello'', ''text''],
       SendMessage 42 ''Hi, we will answer soon'' NoThread []],
      Returned)
   \<and> handle_messages bot_ctx env_ok rules_store hours_message =
     (rules_store,
      [LogInfo ''Received message from {}, content: {}, type: {}'' [''42'', ''hours'', ''text''],
       SendMessage 42 ''Open 9 to 5'' NoThread [],
       ForwardMessage (-100) 42 (ThreadRow 7) 13,
       SendMessage (-100) ''[Auto Response]Open 9 to 5'' (ThreadRow 7) []],
      Returned)"
  using auto_response_gate [of hello_message bot_ctx "''hello''" rules_store hello_rule env_ok]
    auto_response_gate [of hours_message bot_ctx "''hours''" rules_store hours_rule env_ok]
  by (simp add: hello_message_def hours_message_def text_message_def alice_def rules_store_def
      alice_topic_def hello_rule_def hours_rule_def bot_ctx_def env_ok_def raises_def Let_def
      str_int_def str_nat.simps digit_chars_def resolve_or_create_thread_def)

subsection \<open>Termination\<close>

lemma quietly_cases:
  "quietly tg call =
     ([call], if raises tg call = None \<or> raises tg call = Some ApiTelegramException then Returned
              else (case raises tg call of Some e \<Rightarrow> Raised e | None \<Rightarrow> Returned))"
  by (simp add: quietly_def split: option.split)

lemma terminate_thread_found:
  assumes "terminate_lookup st thread_id user_id = (st1, Some t, Some u)" and "u \<noteq> 0" and "t \<noteq> 0"
  shows "terminate_thread c tg st thread_id user_id =
           (let st2 = st1\<lparr>cache := filter (\<lambda>kv. fst kv \<noteq> chat_key u \<and> fst kv \<noteq> thread_key t) (cache st1)\<rparr>;
                del = DeleteForumTopic (group_id c) (Some t)
            in if raises tg del = None \<or> raises tg del = Some ApiTelegramException
               then (st2\<lparr>messages := filter (\<lambda>p. topic_id p \<noteq> t) (messages st1)\<rparr>,
                     [del, terminating_log c (Some t)], Returned)
               else (st2, [del], case raises tg del of Some e \<Rightarrow> Raised e | None \<Rightarrow> Returned))"
  using assms
  by (auto simp: terminate_thread_def quietly_cases cache_delete_def Let_def conj_commute
      split: option.split)

text \<open>
  C3 (as amended). \<open>CommandHandler.terminate_thread\<close>, called with a thread id or else
  with a user id for which \<open>topics\<close> has a row, the two ids of that row not 0: it
  deletes the topic rows with that id, removes both cache keys, and then tries to
  delete the forum thread. When the remote deletion succeeds or raises
  \<open>ApiTelegramException\<close>, the exception is swallowed and the message pairs of the
  thread are deleted afterwards. Any other exception of the remote deletion leaves
  the handler: the topic rows and cache keys are gone, the message pairs are still
  there.
\<close>

theorem terminate_thread_effect:
  assumes "thread_id = Some t \<and> user_id = None
             \<and> find (\<lambda>r. t_thread_id r = t) (topics st) = Some r \<and> u = t_user_id r
             \<and> remaining = filter (\<lambda>r. t_thread_id r \<noteq> t) (topics st)
           \<or> thread_id = None \<and> user_id = Some u
             \<and> find (\<lambda>r. t_user_id r = u) (topics st) = Some r \<and> t = t_thread_id r
             \<and> remaining = filter (\<lambda>r. t_user_id r \<noteq> u) (topics st)"
    and "u \<noteq> 0" and "t \<noteq> 0"
  shows "(let st2 = st\<lparr>topics := remaining,
                        cache := filter (\<lambda>kv. fst kv \<noteq> chat_key u \<and> fst kv \<noteq> thread_key t) (cache st)\<rparr>;
              del = DeleteForumTopic (group_id c) (Some t)
          in (raises tg del = None \<or> raises tg del = Some ApiTelegramException \<longrightarrow>
                terminate_thread c tg st thread_id user_id =
                  (st2\<lparr>messages := filter (\<lambda>p. topic_id p \<noteq> t) (messages st)\<rparr>,
                   [del, terminating_log c (Some t)], Returned))
           \<and> (\<forall>e. raises tg del = Some e \<and> e \<noteq> ApiTelegramException \<longrightarrow>
                terminate_thread c tg st thread_id user_id = (st2, [del], Raised e)))"
proof -
  have L: "terminate_lookup st thread_id user_id = (st\<lparr>topics := remaining\<rparr>, Some t, Some u)"
    using assms(1) by (auto simp: terminate_lookup_def)
  show ?thesis
    by (auto simp: terminate_thread_found [OF L assms(2,3)] Let_def)
qed

theorem terminate_thread_effect_witness:
  "terminate_thread bot_ctx env_gone cached_store (Some 7) None =
     (\<lparr>topics = [], messages = [], auto_response = [], cache = [(''chat_43_threadid'', 8)]\<rparr>,
      [DeleteForumTopic (-100) (Some 7), LogInfo ''Terminating thread7'' []], Returned)
   \<and> terminate_thread bot_ctx env_ok cached_store None (Some 42) =
     (\<lparr>topics = [], messages = [], auto_response = [], cache = [(''chat_43_threadid'', 8)]\<rparr>,
      [DeleteForumTopic (-100) (Some 7), LogInfo ''Terminating thread7'' []], Returned)"
  using terminate_thread_effect [where thread_id = "Some 7" and t = 7 and user_id = None and st = cached_store
      and r = alice_topic and u = 42 and remaining = "[]" and tg = env_gone and c = bot_ctx]
    terminate_thread_effect [where thread_id = None and t = 7 and user_id = "Some 42" and st = cached_store
      and r = alice_topic and u = 42 and remaining = "[]" and tg = env_ok and c = bot_ctx]
  by (simp add: cached_store_def relay_store_def relay_pair_def alice_topic_def bot_ctx_def
      env_gone_def env_ok_def raises_def Let_def chat_key_def thread_key_def terminating_log_def
      str_int_opt_def str_int_def str_nat.simps digit_chars_def)

text \<open>
  The remote deletion runs before the message pairs are deleted, and only
  \<open>ApiTelegramException\<close> is caught: on a network error the pair of thread 7 stays
  in \<open>messages\<close> and the error is not swallowed.
\<close>

theorem terminate_thread_unswallowed_counterexample:
  "terminate_thread bot_ctx env_down relay_store (Some 7) None =
     (\<lparr>topics = [], messages = [relay_pair], auto_response = [], cache = []\<rparr>,
      [DeleteForumTopic (-100) (Some 7)], Raised RequestException)"
  by (simp add: terminate_thread_def terminate_lookup_def quietly_def cache_delete_def
      relay_store_def relay_pair_def bot_ctx_def env_down_def env_ok_def raises_def)

text \<open>
  \<open>TGBot.terminate_thread\<close> (main.py), given a thread id: it deletes the topic rows
  and tries the remote deletion; it has neither cache nor message pairs to clear.
\<close>

lemma tgbot_terminate_thread_by_thread:
  "tgbot_terminate_thread c tg st (Some t) user_id =
     (let st1 = st\<lparr>topics := filter (\<lambda>r. t_thread_id r \<noteq> t) (topics st)\<rparr>;
          del = DeleteForumTopic (group_id c) (Some t)
      in if raises tg del = None \<or> raises tg del = Some ApiTelegramException
         then (st1, [del, terminating_log c (Some t)], Returned)
         else (st1, [del], case raises tg del of Some e \<Rightarrow> Raised e | None \<Rightarrow> Returned))"
  by (auto simp: tgbot_terminate_thread_def tgbot_delete_and_log_def quietly_cases Let_def
      split: option.split)

subsection \<open>A new topic after termination\<close>








end
